theory Spec2Isabelle
  imports Main
begin

section \<open>Go values shared by both packages\<close>

text \<open>
  Byte slices are strings (an Isabelle \<open>char\<close> is one byte).  A Go \<open>error\<close> is a value:
  \<open>ErrorNew\<close> stands for \<open>errors.New\<close> and \<open>errors.Errorf\<close> (the formatted message is
  written out), \<open>Wrap\<close> for \<open>errors.Wrap\<close> and \<open>errors.Wrapf\<close>, and the remaining
  constructors for the helpers of the \<open>errs\<close> package that \<open>signAction\<close> and
  \<open>readPayload\<close> call.
\<close>

type_synonym bytes = string

datatype error =
    ErrorNew string
  | Wrap error string
  | TooManyArguments
  | RequiredOrFlag string string
  | MutuallyExclusiveFlags string string
  | RequiredWithFlag string string
  | FileError error string

text \<open>
  A run-time panic is not an \<open>error\<close> return: it unwinds the caller.  Functions of the
  source that index a slice, dereference a pointer or assert a type without a check
  return \<open>'a go\<close>.
\<close>

datatype panic = IndexOutOfRange | NilDereference | InterfaceConversion

datatype 'a go = Panic panic | Return 'a

text \<open>\<open>xs[0]\<close> on a Go slice.\<close>

definition index0 :: "'a list \<Rightarrow> 'a go" where
  "index0 xs = (case xs of [] \<Rightarrow> Panic IndexOutOfRange | x # _ \<Rightarrow> Return x)"

section \<open>The command-line context\<close>

text \<open>
  \<open>*cli.Context\<close> (the flag-parsing library) holds the positional arguments and the flags
  that were given on the command line.  A flag that was not given reads as the zero value
  of its type, and \<open>IsSet\<close> tells the two apart.
\<close>

datatype flag_value =
    FString string
  | FStrings "string list"
  | FInt64 int
  | FBool bool

record cli_Context =
  ctx_Args :: "string list"
  ctx_flags :: "string \<rightharpoonup> flag_value"

definition ctx_String :: "cli_Context \<Rightarrow> string \<Rightarrow> string" where
  "ctx_String ctx name = (case ctx_flags ctx name of Some (FString s) \<Rightarrow> s | _ \<Rightarrow> [])"

definition ctx_StringSlice :: "cli_Context \<Rightarrow> string \<Rightarrow> string list" where
  "ctx_StringSlice ctx name = (case ctx_flags ctx name of Some (FStrings ss) \<Rightarrow> ss | _ \<Rightarrow> [])"

definition ctx_Int64 :: "cli_Context \<Rightarrow> string \<Rightarrow> int" where
  "ctx_Int64 ctx name = (case ctx_flags ctx name of Some (FInt64 i) \<Rightarrow> i | _ \<Rightarrow> 0)"

definition ctx_Bool :: "cli_Context \<Rightarrow> string \<Rightarrow> bool" where
  "ctx_Bool ctx name = (case ctx_flags ctx name of Some (FBool b) \<Rightarrow> b | _ \<Rightarrow> False)"

definition ctx_IsSet :: "cli_Context \<Rightarrow> string \<Rightarrow> bool" where
  "ctx_IsSet ctx name = (ctx_flags ctx name \<noteq> None)"

section \<open>JOSE values\<close>

text \<open>
  JSON as Go decodes it into \<open>interface{}\<close>; an object at the top level is a Go map
  (\<open>map[string]interface{}\<close>), so it is a HOL map.  The numbers the flag-derived claims
  carry are whole seconds; the numbers of a user payload are opaque to everything below.
\<close>

datatype json =
    JNull
  | JBool bool
  | JNumber int
  | JString string
  | JArray "json list"
  | JObject "(string \<times> json) list"

type_synonym json_object = "string \<rightharpoonup> json"

text \<open>
  \<open>jose.JSONWebKey\<close>: the fields \<open>signAction\<close> and \<open>GenerateToken\<close> read.  \<open>IsPublic\<close> is
  the library's test on the dynamic type of \<open>Key\<close>.
\<close>

datatype key_material =
    PrivateKey bytes
  | PublicKey bytes
  | SymmetricKey bytes

record JSONWebKey =
  Key :: key_material
  KeyID :: string
  Algorithm :: string
  Use :: string

definition IsPublic :: "JSONWebKey \<Rightarrow> bool" where
  "IsPublic jwk = (case Key jwk of PublicKey _ \<Rightarrow> True | _ \<Rightarrow> False)"

text \<open>The \<open>jose.Option\<close> values the two packages build.\<close>

datatype jose_Option =
    WithUse string
  | WithAlg string
  | WithKid string
  | WithSubtle bool
  | WithPasswordFile string
  | WithUIOptions

text \<open>
  Instants are nanoseconds since the Unix epoch, as \<open>time.Time\<close> resolves them.
  \<open>time.Time{}\<close> is midnight UTC of 1 January of year 1.
\<close>

type_synonym time = int

definition time_zero :: time where
  "time_zero = - 62135596800 * 1000000000"

definition time_Unix :: "int \<Rightarrow> time" where
  "time_Unix sec = sec * 1000000000"

definition time_Before :: "time \<Rightarrow> time \<Rightarrow> bool" where
  "time_Before t u = (t < u)"

text \<open>
  Modelled from the spec: \<open>jose.NumericDate\<close>, \<open>jose.UnixNumericDate\<close>,
  \<open>jose.NewNumericDate\<close> and the \<open>Time\<close> method are declared in the \<open>jose\<close> package, which
  is not among the sources.  A \<open>*NumericDate\<close> is a pointer to whole seconds since the
  Unix epoch; an unset timestamp flag reads as 0 and yields nil (which is what lines
  593, 596 and 614 test: "not-before and issued-at default to current time if unset",
  "expiry [is] required"); the time of nil is \<open>time.Time{}\<close>.
\<close>

type_synonym NumericDate = "int option"

definition UnixNumericDate :: "int \<Rightarrow> NumericDate" where
  "UnixNumericDate s = (if s = 0 then None else Some s)"

definition NewNumericDate :: "time \<Rightarrow> NumericDate" where
  "NewNumericDate t = (if t = time_zero then None else Some (t div 1000000000))"

definition NumericDate_Time :: "NumericDate \<Rightarrow> time" where
  "NumericDate_Time n = (case n of None \<Rightarrow> time_zero | Some s \<Rightarrow> time_Unix s)"

text \<open>
  Modelled from the spec: the compact serialization of a signed token,
  "RFC7519-compact three-part token (base64url header.claims.signature)", is produced by
  the JOSE library.  It is kept in structured form: the protected header and the claim
  set as the JSON objects that are encoded, and the signature bytes.
\<close>

record compact_JWT =
  jwt_protected :: json_object
  jwt_payload :: json_object
  jwt_signature :: bytes

section \<open>Package ca: the offline authority (\<open>command/ca/offline.go\<close>)\<close>

subsection \<open>Configuration and provisioners\<close>

text \<open>
  The fields of \<open>authority.Config\<close> that \<open>offline.go\<close> reads.  \<open>AuthorityConfig\<close> is a
  pointer in the source, so it may be nil.  A provisioner is an interface value; the
  type switch of \<open>GenerateToken\<close> distinguishes the five variants below, and every other
  dynamic type (kept with its Go type name) ends in the "unknown provisioner type"
  error.  The \<open>Key\<close> of a JWK provisioner is a pointer to its public key.
\<close>

record JWK_provisioner =
  jwk_Name :: string
  jwk_Key :: "JSONWebKey option"
  jwk_EncryptedKey :: string

record OIDC_provisioner =
  ConfigurationEndpoint :: string
  ClientID :: string
  ClientSecret :: string

record cloud_provisioner =
  cloud_Name :: string
  DisableCustomSANs :: bool

datatype provisioner =
    JWK JWK_provisioner
  | OIDC OIDC_provisioner
  | GCP cloud_provisioner
  | AWS cloud_provisioner
  | Azure cloud_provisioner
  | OtherProvisioner string

record AuthConfig =
  Provisioners :: "provisioner list"

record Config =
  DNSNames :: "string list"
  Root :: "string list"
  IntermediateCert :: string
  AuthorityConfig :: "AuthConfig option"

subsection \<open>Revocation requests, options and the transport\<close>

datatype x509_Certificate = X509Certificate bytes

record RevokeRequest =
  req_Serial :: string
  req_OTT :: string
  req_ReasonCode :: int
  req_Reason :: string
  req_Passive :: bool

record RevokeOptions =
  Serial :: string
  Reason :: string
  ReasonCode :: int
  PassiveOnly :: bool
  MTLS :: bool
  Crt :: "x509_Certificate option"
  OTT :: string

record RevokeResponse =
  Status :: string

text \<open>
  \<open>http.RoundTripper\<close> is an interface.  \<open>rt.(*http.Transport)\<close> panics on a nil interface
  and on any other dynamic type; it succeeds on a nil \<open>*http.Transport\<close>, whose field
  access then panics.  \<open>TLSClientConfig\<close> is a pointer, \<open>Certificates\<close> and \<open>Certificate\<close>
  are slices.
\<close>

record tls_Certificate =
  Certificate :: "bytes list"

record tls_Config =
  Certificates :: "tls_Certificate list"

record http_Transport =
  TLSClientConfig :: "tls_Config option"

datatype RoundTripper =
    NilRoundTripper
  | Transport "http_Transport option"
  | OtherRoundTripper

subsection \<open>The wrapped authority and the environment\<close>

text \<open>
  \<open>*authority.Authority\<close> belongs to another module; the wrapper only calls its methods.
  Of those, \<open>Revoke\<close> is the one modelled here: what it answers for the options it is
  handed.  The environment holds the library calls of \<open>offline.go\<close> that read the file
  system, decode or decrypt: each is a parameter, so every theorem holds whatever they
  return.
\<close>

record Authority =
  authority_Revoke :: "RevokeOptions \<Rightarrow> error option"

record offlineCA =
  authority :: Authority
  config :: Config
  configFile :: string

record ca_env =
  utils_ReadFile :: "string \<Rightarrow> error + bytes"
  json_Unmarshal_Config :: "bytes \<Rightarrow> error + Config"
  authority_New :: "Config \<Rightarrow> error + Authority"
  x509_ParseCertificate :: "bytes \<Rightarrow> error + x509_Certificate"
  ui_choose :: "provisioner list \<Rightarrow> error + provisioner"
  exec_Step :: "string list \<Rightarrow> error + bytes"
  strings_TrimSpace :: "string \<Rightarrow> string"
  GetIdentityToken :: "provisioner \<Rightarrow> string \<Rightarrow> string \<Rightarrow> error + string"
  jose_Decrypt :: "string \<Rightarrow> bytes \<Rightarrow> jose_Option list \<Rightarrow> error + bytes"
  json_Unmarshal_JWK :: "bytes \<Rightarrow> error + JSONWebKey"
  token_header :: "JSONWebKey \<Rightarrow> json_object"
  token_signature :: "JSONWebKey \<Rightarrow> json_object \<Rightarrow> json_object \<Rightarrow> error + bytes"

text \<open>
  What the wrapper does to the outside, in order: the file it reads, each authority it
  constructs, each revocation it hands to the authority.
\<close>

datatype ca_event =
    EvReadFile string
  | EvAuthorityNew Config
  | EvAuthorityRevoke RevokeOptions

subsection \<open>\<open>newOfflineCA\<close> (lines 41--66)\<close>

text \<open>
  The test of line 52, \<open>config.AuthorityConfig == nil || len(...Provisioners) == 0\<close>; the
  second operand is evaluated only when the pointer is not nil.
\<close>

definition no_provisioners :: "Config \<Rightarrow> bool" where
  "no_provisioners cfg =
     (case AuthorityConfig cfg of
        None \<Rightarrow> True
      | Some ac \<Rightarrow> length (Provisioners ac) = 0)"

definition newOfflineCA :: "ca_env \<Rightarrow> string \<Rightarrow> ca_event list \<times> (error + offlineCA)" where
  "newOfflineCA E file =
     (case utils_ReadFile E file of
        Inl err \<Rightarrow> ([EvReadFile file], Inl err)
      | Inr b \<Rightarrow>
          (case json_Unmarshal_Config E b of
             Inl err \<Rightarrow> ([EvReadFile file], Inl (Wrap err (''error reading '' @ file)))
           | Inr cfg \<Rightarrow>
               if no_provisioners cfg then
                 ([EvReadFile file],
                  Inl (ErrorNew (''error parsing '' @ file @ '': no provisioners found'')))
               else
                 (case authority_New E cfg of
                    Inl err \<Rightarrow> ([EvReadFile file, EvAuthorityNew cfg], Inl err)
                  | Inr auth \<Rightarrow>
                      ([EvReadFile file, EvAuthorityNew cfg],
                       Inr \<lparr>authority = auth, config = cfg, configFile = file\<rparr>))))"

subsection \<open>\<open>Audience\<close>, \<open>CaURL\<close>, \<open>Root\<close>, \<open>Provisioners\<close> (lines 114--137)\<close>

text \<open>
  Modelled from the spec: the token-type constants \<open>signType\<close> and \<open>revokeType\<close> are
  declared in a file of the package that is not among the sources.  They are \<open>int\<close>
  constants; \<open>Audience\<close> only tests whether its argument equals \<open>revokeType\<close>
  ("\<open>https://<primary-dns>/revoke\<close> for revocation tokens, \<open>https://<primary-dns>/sign\<close>
  otherwise").
\<close>

definition signType :: int where
  "signType = 0"

definition revokeType :: int where
  "revokeType = 1"

definition Audience :: "offlineCA \<Rightarrow> int \<Rightarrow> string go" where
  "Audience c tokType =
     (if tokType = revokeType then
        (case index0 (DNSNames (config c)) of
           Panic p \<Rightarrow> Panic p
         | Return d \<Rightarrow> Return (''https://'' @ d @ ''/revoke''))
      else
        (case index0 (DNSNames (config c)) of
           Panic p \<Rightarrow> Panic p
         | Return d \<Rightarrow> Return (''https://'' @ d @ ''/sign'')))"

definition CaURL :: "offlineCA \<Rightarrow> string go" where
  "CaURL c =
     (case index0 (DNSNames (config c)) of
        Panic p \<Rightarrow> Panic p
      | Return d \<Rightarrow> Return (''https://'' @ d))"

text \<open>
  \<open>c.config.Root.First()\<close>: \<open>Root\<close> is a list of paths whose \<open>First\<close> method belongs to
  the authority module; it gives the first path, or the empty string for an empty list.
\<close>

definition Root_First :: "offlineCA \<Rightarrow> string" where
  "Root_First c = (case Root (config c) of [] \<Rightarrow> [] | r # _ \<Rightarrow> r)"

text \<open>\<open>c.config.AuthorityConfig.Provisioners\<close> dereferences the pointer.\<close>

definition Provisioners_of :: "offlineCA \<Rightarrow> provisioner list go" where
  "Provisioners_of c =
     (case AuthorityConfig (config c) of
        None \<Rightarrow> Panic NilDereference
      | Some ac \<Rightarrow> Return (Provisioners ac))"

subsection \<open>\<open>Revoke\<close> (lines 184--216)\<close>

text \<open>
  Lines 201--202 (the same two lines as 166--167 of \<open>Renew\<close>):
  \<open>tr := rt.(*http.Transport)\<close> and
  \<open>tr.TLSClientConfig.Certificates[0].Certificate[0]\<close>.
\<close>

definition peer_asn1Data :: "RoundTripper \<Rightarrow> bytes go" where
  "peer_asn1Data rt =
     (case rt of
        NilRoundTripper \<Rightarrow> Panic InterfaceConversion
      | OtherRoundTripper \<Rightarrow> Panic InterfaceConversion
      | Transport None \<Rightarrow> Panic NilDereference
      | Transport (Some tr) \<Rightarrow>
          (case TLSClientConfig tr of
             None \<Rightarrow> Panic NilDereference
           | Some cfg \<Rightarrow>
               (case index0 (Certificates cfg) of
                  Panic p \<Rightarrow> Panic p
                | Return crt \<Rightarrow> index0 (Certificate crt))))"

text \<open>Lines 210--215: the call of the authority and the response.\<close>

definition revoke_using_authority ::
    "offlineCA \<Rightarrow> RevokeOptions \<Rightarrow> ca_event list \<times> (error + RevokeResponse) go" where
  "revoke_using_authority c opts =
     (case authority_Revoke (authority c) opts of
        Some err \<Rightarrow> ([EvAuthorityRevoke opts], Return (Inl err))
      | None \<Rightarrow> ([EvAuthorityRevoke opts], Return (Inr \<lparr>Status = ''ok''\<rparr>)))"

definition Revoke ::
    "ca_env \<Rightarrow> offlineCA \<Rightarrow> RevokeRequest \<Rightarrow> RoundTripper
       \<Rightarrow> ca_event list \<times> (error + RevokeResponse) go" where
  "Revoke E c req rt =
     (let opts = \<lparr>Serial = req_Serial req, Reason = req_Reason req,
                  ReasonCode = req_ReasonCode req, PassiveOnly = req_Passive req,
                  MTLS = False, Crt = None, OTT = []\<rparr>
      in
        if length (req_OTT req) > 0 then
          revoke_using_authority c (opts\<lparr>OTT := req_OTT req, MTLS := False\<rparr>)
        else
          (case peer_asn1Data rt of
             Panic p \<Rightarrow> ([], Panic p)
           | Return asn1Data \<Rightarrow>
               (case x509_ParseCertificate E asn1Data of
                  Inl err \<Rightarrow> ([], Return (Inl (Wrap err ''error parsing certificate'')))
                | Inr crt \<Rightarrow>
                    revoke_using_authority c (opts\<lparr>Crt := Some crt, MTLS := True\<rparr>))))"

subsection \<open>\<open>GenerateToken\<close> (lines 218--285)\<close>

text \<open>
  Modelled from the spec: \<open>provisionerPrompt\<close> is a function of the package that is not
  among the sources.  "If exactly one provisioner is configured, select it without
  prompting; otherwise invoke the interactive chooser (external collaborator) to pick
  one.  Fails with \<open>SelectionError\<close> if the list is empty."
\<close>

definition SelectionError :: error where
  "SelectionError = ErrorNew ''SelectionError''"

definition provisionerPrompt ::
    "ca_env \<Rightarrow> cli_Context \<Rightarrow> provisioner list \<Rightarrow> error + provisioner" where
  "provisionerPrompt E ctx provisioners =
     (case provisioners of
        [] \<Rightarrow> Inl SelectionError
      | [p] \<Rightarrow> Inr p
      | _ \<Rightarrow> ui_choose E provisioners)"

text \<open>
  Modelled from the spec: \<open>generateToken\<close> is a function of the package that is not among
  the sources.  "Build Claims: issuer = provisioner name, audience =
  \<open>Authority.Audience(tokenType)\<close>, subject = caller-supplied subject, not-before/not-after
  = caller-supplied window, key id = provisioner key id.  Sign with the decrypted key
  using the key's declared (or inferred) algorithm; embed \<open>kid\<close> in the token header.
  Serialize compactly and return as the OTT string."  The header members the signer
  chooses for the key, and the signature, come from the environment.
\<close>

definition generateToken ::
    "ca_env \<Rightarrow> int \<Rightarrow> string \<Rightarrow> string list \<Rightarrow> string \<Rightarrow> string \<Rightarrow> string \<Rightarrow> string
       \<Rightarrow> time \<Rightarrow> time \<Rightarrow> JSONWebKey \<Rightarrow> error + compact_JWT" where
  "generateToken E typ subject sans kid issuer audience root notBefore notAfter jwk =
     (let claims = [''iss'' \<mapsto> JString issuer, ''aud'' \<mapsto> JString audience,
                    ''sub'' \<mapsto> JString subject,
                    ''nbf'' \<mapsto> JNumber (notBefore div 1000000000),
                    ''exp'' \<mapsto> JNumber (notAfter div 1000000000)];
          header = (token_header E jwk)(''kid'' \<mapsto> JString kid)
      in
        case token_signature E jwk header claims of
          Inl err \<Rightarrow> Inl err
        | Inr sig \<Rightarrow>
            Inr \<lparr>jwt_protected = header, jwt_payload = claims, jwt_signature = sig\<rparr>)"

text \<open>
  What \<open>GenerateToken\<close> returns: the token as a string for the delegated identity
  providers, the structured compact token on the JWK path.
\<close>

datatype token = BearerToken string | CompactToken compact_JWT

text \<open>
  Lines 241--249: the three cloud cases are the same two statements.  The assignment to
  the package variable \<open>sharedContext.DisableCustomSANs\<close> is the first component of the
  result.
\<close>

definition cloud_identity_token ::
    "ca_env \<Rightarrow> offlineCA \<Rightarrow> provisioner \<Rightarrow> cloud_provisioner \<Rightarrow> string
       \<Rightarrow> (bool \<times> (error + token)) go" where
  "cloud_identity_token E c p cp subject =
     (case CaURL c of
        Panic pn \<Rightarrow> Panic pn
      | Return url \<Rightarrow>
          Return (DisableCustomSANs cp,
                  case GetIdentityToken E p subject url of
                    Inl err \<Rightarrow> Inl err
                  | Inr tok \<Rightarrow> Inr (BearerToken tok)))"

text \<open>Lines 252--284: the JWK provisioner.\<close>

definition jwk_token ::
    "ca_env \<Rightarrow> cli_Context \<Rightarrow> JWK_provisioner \<Rightarrow> int \<Rightarrow> string \<Rightarrow> string list
       \<Rightarrow> string \<Rightarrow> string \<Rightarrow> time \<Rightarrow> time \<Rightarrow> (error + token) go" where
  "jwk_token E ctx prov typ subject sans audience root notBefore notAfter =
     (case jwk_Key prov of
        None \<Rightarrow> Panic NilDereference
      | Some pub \<Rightarrow>
          (let kid = KeyID pub;
               issuer = jwk_Name prov;
               encryptedKey = jwk_EncryptedKey prov;
               passwordFile = ctx_String ctx ''password-file'';
               opts = [WithUIOptions]
                      @ (if length passwordFile \<noteq> 0 then [WithPasswordFile passwordFile] else [])
           in
             if length encryptedKey = 0 then
               Return (Inl (ErrorNew (''provisioner '' @ [CHR 0x27] @ kid @ [CHR 0x27]
                                       @ '' does not have an 'encryptedKey' property'')))
             else
               (case jose_Decrypt E ''Please enter the password to decrypt the provisioner key''
                       encryptedKey opts of
                  Inl err \<Rightarrow> Return (Inl err)
                | Inr decrypted \<Rightarrow>
                    (case json_Unmarshal_JWK E decrypted of
                       Inl err \<Rightarrow> Return (Inl (Wrap err ''error unmarshalling provisioning key''))
                     | Inr jwk \<Rightarrow>
                         (case generateToken E typ subject sans kid issuer audience root
                                 notBefore notAfter jwk of
                            Inl err \<Rightarrow> Return (Inl err)
                          | Inr tok \<Rightarrow> Return (Inr (CompactToken tok)))))))"

definition GenerateToken ::
    "ca_env \<Rightarrow> offlineCA \<Rightarrow> bool \<Rightarrow> cli_Context \<Rightarrow> int \<Rightarrow> string \<Rightarrow> string list
       \<Rightarrow> time \<Rightarrow> time \<Rightarrow> (bool \<times> (error + token)) go" where
  "GenerateToken E c sharedContext_DisableCustomSANs ctx typ subject sans notBefore notAfter =
     (let root = Root_First c in
      case Audience c typ of
        Panic pn \<Rightarrow> Panic pn
      | Return audience \<Rightarrow>
          (case Provisioners_of c of
             Panic pn \<Rightarrow> Panic pn
           | Return provisioners \<Rightarrow>
               (case provisionerPrompt E ctx provisioners of
                  Inl err \<Rightarrow> Return (sharedContext_DisableCustomSANs, Inl err)
                | Inr p \<Rightarrow>
                    (case p of
                       OIDC oidc \<Rightarrow>
                         (case exec_Step E [''oauth'', ''--oidc'', ''--bare'',
                                   ''--provider'', ConfigurationEndpoint oidc,
                                   ''--client-id'', ClientID oidc,
                                   ''--client-secret'', ClientSecret oidc] of
                            Inl err \<Rightarrow> Return (sharedContext_DisableCustomSANs, Inl err)
                          | Inr out \<Rightarrow>
                              Return (sharedContext_DisableCustomSANs,
                                      Inr (BearerToken (strings_TrimSpace E out))))
                     | GCP cp \<Rightarrow> cloud_identity_token E c p cp subject
                     | AWS cp \<Rightarrow> cloud_identity_token E c p cp subject
                     | Azure cp \<Rightarrow> cloud_identity_token E c p cp subject
                     | OtherProvisioner tname \<Rightarrow>
                         Return (sharedContext_DisableCustomSANs,
                                 Inl (ErrorNew (''unknown provisioner type '' @ tname)))
                     | JWK prov \<Rightarrow>
                         (case jwk_token E ctx prov typ subject sans audience root
                                 notBefore notAfter of
                            Panic pn \<Rightarrow> Panic pn
                          | Return r \<Rightarrow> Return (sharedContext_DisableCustomSANs, r))))))"

section \<open>Package jwt: the standalone sign workflow (\<open>signAction\<close>, \<open>readPayload\<close>)\<close>

subsection \<open>The environment\<close>

text \<open>
  The calls of \<open>signAction\<close> and \<open>readPayload\<close> that leave the package: standard input,
  the file system, the key readers of the \<open>jose\<close> package, the clock, the random source
  and the signer.  \<open>time.Now()\<close> is called at three places (lines 578, 592 and 616); each
  place has a reading of its own, and nothing is assumed about their order.
  \<open>os_Stdin_Stat\<close> gives the size of standard input and whether it is a named pipe.
\<close>

record jwt_env =
  os_Stdin_Stat :: "error + (int \<times> bool)"
  os_Stdin_Decode :: "error + json_object"
  ioutil_ReadFile :: "string \<Rightarrow> error + bytes"
  json_Decode :: "bytes \<Rightarrow> error + json_object"
  jose_ParseKey :: "string \<Rightarrow> jose_Option list \<Rightarrow> error + JSONWebKey"
  jose_ParseKeySet :: "string \<Rightarrow> jose_Option list \<Rightarrow> error + JSONWebKey"
  jose_ValidateJWK :: "JSONWebKey \<Rightarrow> error option"
  time_Now_578 :: time
  time_Now_592 :: time
  time_Now_616 :: time
  rand_error :: "error option"
  rand_draw :: "nat \<Rightarrow> nat"
  signer_error :: "string \<Rightarrow> key_material \<Rightarrow> error option"
  sign_error :: "string \<Rightarrow> key_material \<Rightarrow> json_object \<Rightarrow> json_object \<Rightarrow> error option"
  sign_bytes :: "string \<Rightarrow> key_material \<Rightarrow> json_object \<Rightarrow> json_object \<Rightarrow> bytes"

text \<open>What the workflow does to the outside, in order.\<close>

datatype io_event =
    IoStdinStat
  | IoStdinRead
  | IoReadFile string
  | IoParseKey string "jose_Option list"
  | IoParseKeySet string "jose_Option list"
  | IoPrintln compact_JWT

subsection \<open>\<open>readPayload\<close> (lines 652--682)\<close>

text \<open>
  Lines 674--681 on standard input: the decoder reads it, and a failure is reported as
  coming from STDIN.  \<open>readPayload\<close> reaches them with the file name \<open>""\<close> or \<open>"-"\<close>.
\<close>

definition decode_stdin :: "jwt_env \<Rightarrow> io_event list \<Rightarrow> io_event list \<times> (error + json_object)" where
  "decode_stdin E io =
     (case os_Stdin_Decode E of
        Inl err \<Rightarrow> (io @ [IoStdinRead], Inl (Wrap err ''error decoding JSON from STDIN''))
      | Inr v \<Rightarrow> (io @ [IoStdinRead], Inr v))"

definition readPayload :: "jwt_env \<Rightarrow> string \<Rightarrow> io_event list \<times> (error + json_object)" where
  "readPayload E filename =
     (if filename = [] then
        (case os_Stdin_Stat E of
           Inl err \<Rightarrow> ([IoStdinStat], Inl (Wrap err ''error reading data''))
         | Inr (sz, named_pipe) \<Rightarrow>
             if sz = 0 \<and> \<not> named_pipe then ([IoStdinStat], Inr Map.empty)
             else decode_stdin E [IoStdinStat])
      else if filename = ''-'' then decode_stdin E []
      else
        (case ioutil_ReadFile E filename of
           Inl err \<Rightarrow> ([IoReadFile filename], Inl (FileError err filename))
         | Inr b \<Rightarrow>
             (case json_Decode E b of
                Inl err \<Rightarrow>
                  ([IoReadFile filename],
                   Inl (Wrap err (''error decoding JSON from '' @ filename)))
              | Inr v \<Rightarrow> ([IoReadFile filename], Inr v))))"

subsection \<open>The JOSE library as \<open>signAction\<close> uses it\<close>

text \<open>
  Modelled from the spec: the random source.  \<open>randutil.Hex\<close> is declared in a package
  that is not among the sources: "a cryptographically random hex string of fixed
  length".  The string has the requested number of characters, each a lower-case
  hexadecimal digit chosen by a draw of the environment; the source may fail.
\<close>

definition hex_digits :: string where
  "hex_digits = ''0123456789abcdef''"

definition randutil_Hex :: "jwt_env \<Rightarrow> nat \<Rightarrow> error + string" where
  "randutil_Hex E n =
     (case rand_error E of
        Some err \<Rightarrow> Inl err
      | None \<Rightarrow> Inr (map (\<lambda>i. hex_digits ! (rand_draw E i mod 16)) [0..<n]))"

text \<open>
  Modelled from the spec: \<open>jose.Claims\<close> and its JSON form.  "Claims --- issuer, subject,
  audience (one or many recipients), expiry, not-before, issued-at, unique id"; the
  "default array encoding" of the audience; a member whose field is empty (the empty
  string, the empty list, nil) is omitted.
\<close>

record Claims =
  c_Issuer :: string
  c_Subject :: string
  c_Audience :: "string list"
  c_Expiry :: NumericDate
  c_NotBefore :: NumericDate
  c_IssuedAt :: NumericDate
  c_ID :: string

definition omitempty_string :: "string \<Rightarrow> string \<Rightarrow> json_object" where
  "omitempty_string name s = (if s = [] then Map.empty else [name \<mapsto> JString s])"

definition omitempty_date :: "string \<Rightarrow> NumericDate \<Rightarrow> json_object" where
  "omitempty_date name d = (case d of None \<Rightarrow> Map.empty | Some n \<Rightarrow> [name \<mapsto> JNumber n])"

definition Claims_json :: "Claims \<Rightarrow> json_object" where
  "Claims_json c =
     omitempty_string ''iss'' (c_Issuer c)
     ++ omitempty_string ''sub'' (c_Subject c)
     ++ (if c_Audience c = [] then Map.empty
         else [''aud'' \<mapsto> JArray (map JString (c_Audience c))])
     ++ omitempty_date ''exp'' (c_Expiry c)
     ++ omitempty_date ''nbf'' (c_NotBefore c)
     ++ omitempty_date ''iat'' (c_IssuedAt c)
     ++ omitempty_string ''jti'' (c_ID c)"

text \<open>
  Modelled from the spec: the signer options, the signer and the token builder of the
  JOSE library.  \<open>WithHeader\<close> stores one more header member and \<open>WithType\<close> stores
  \<open>typ\<close>; the protected header of a token is \<open>alg\<close> together with these members.
  \<open>Claims\<close> merges a JSON object into the builder's claim set, and on a key that both
  have the object merged later wins ("by re-merging claims after base construction",
  "the override claim wins over the structured claim on key collision").
  \<open>CompactSerialize\<close> signs and gives the three-part token.
\<close>

record SignerOptions =
  ExtraHeaders :: json_object

definition new_SignerOptions :: SignerOptions where
  "new_SignerOptions = \<lparr>ExtraHeaders = Map.empty\<rparr>"

definition WithHeader :: "SignerOptions \<Rightarrow> string \<Rightarrow> json \<Rightarrow> SignerOptions" where
  "WithHeader so k v = so\<lparr>ExtraHeaders := (ExtraHeaders so)(k \<mapsto> v)\<rparr>"

definition WithType :: "SignerOptions \<Rightarrow> string \<Rightarrow> SignerOptions" where
  "WithType so typ = WithHeader so ''typ'' (JString typ)"

record Signer =
  signer_Algorithm :: string
  signer_Key :: key_material
  signer_Headers :: json_object

definition jose_NewSigner ::
    "jwt_env \<Rightarrow> string \<Rightarrow> key_material \<Rightarrow> SignerOptions \<Rightarrow> error + Signer" where
  "jose_NewSigner E alg k so =
     (case signer_error E alg k of
        Some err \<Rightarrow> Inl err
      | None \<Rightarrow>
          Inr \<lparr>signer_Algorithm = alg, signer_Key = k,
               signer_Headers = [''alg'' \<mapsto> JString alg] ++ ExtraHeaders so\<rparr>)"

record builder =
  b_signer :: Signer
  b_payload :: json_object

definition jose_Signed :: "Signer \<Rightarrow> builder" where
  "jose_Signed sig = \<lparr>b_signer = sig, b_payload = Map.empty\<rparr>"

definition builder_Claims :: "builder \<Rightarrow> json_object \<Rightarrow> builder" where
  "builder_Claims b m = b\<lparr>b_payload := b_payload b ++ m\<rparr>"

definition CompactSerialize :: "jwt_env \<Rightarrow> builder \<Rightarrow> error + compact_JWT" where
  "CompactSerialize E b =
     (let sig = b_signer b in
      case sign_error E (signer_Algorithm sig) (signer_Key sig) (signer_Headers sig)
             (b_payload b) of
        Some err \<Rightarrow> Inl err
      | None \<Rightarrow>
          Inr \<lparr>jwt_protected = signer_Headers sig, jwt_payload = b_payload b,
               jwt_signature = sign_bytes E (signer_Algorithm sig) (signer_Key sig)
                                 (signer_Headers sig) (b_payload b)\<rparr>)"

subsection \<open>\<open>signAction\<close> (lines 489--650), block by block\<close>

text \<open>Lines 493--508: the payload, from no or one positional argument.\<close>

definition payload_from_args ::
    "jwt_env \<Rightarrow> cli_Context \<Rightarrow> io_event list \<times> (error + json_object)" where
  "payload_from_args E ctx =
     (case ctx_Args ctx of
        [] \<Rightarrow> readPayload E []
      | [a] \<Rightarrow> readPayload E a
      | _ \<Rightarrow> ([], Inl TooManyArguments))"

text \<open>Lines 513--524: validate key, jwks and kid.\<close>

definition validate_key_jwks_kid :: "string \<Rightarrow> string \<Rightarrow> string \<Rightarrow> error option" where
  "validate_key_jwks_kid key jwks kid =
     (if key = [] \<and> jwks = [] then Some (RequiredOrFlag ''key'' ''jwks'')
      else if key \<noteq> [] \<and> jwks \<noteq> [] then Some (MutuallyExclusiveFlags ''key'' ''jwks'')
      else if jwks \<noteq> [] \<and> kid = [] then Some (RequiredWithFlag ''kid'' ''jwks'')
      else None)"

text \<open>Lines 526--540: the parse options.\<close>

definition parse_options :: "cli_Context \<Rightarrow> string \<Rightarrow> string \<Rightarrow> bool \<Rightarrow> jose_Option list" where
  "parse_options ctx alg kid isSubtle =
     [WithUse ''sig'']
     @ (if length alg > 0 then [WithAlg alg] else [])
     @ (if length kid > 0 then [WithKid kid] else [])
     @ (if isSubtle then [WithSubtle True] else [])
     @ (let passwordFile = ctx_String ctx ''password-file''
        in if length passwordFile > 0 then [WithPasswordFile passwordFile] else [])"

text \<open>Lines 542--554: read the key from \<open>--key\<close> or \<open>--jwks\<close>.\<close>

definition read_key ::
    "jwt_env \<Rightarrow> string \<Rightarrow> string \<Rightarrow> jose_Option list
       \<Rightarrow> io_event list \<times> (error + JSONWebKey)" where
  "read_key E key jwks options =
     (if key \<noteq> [] then ([IoParseKey key options], jose_ParseKey E key options)
      else if jwks \<noteq> [] then ([IoParseKeySet jwks options], jose_ParseKeySet E jwks options)
      else ([], Inl (RequiredOrFlag ''key'' ''jwks'')))"

text \<open>Lines 556--575: the key policy.\<close>

definition check_key :: "jwt_env \<Rightarrow> JSONWebKey \<Rightarrow> error option" where
  "check_key E jwk =
     (if IsPublic jwk then Some (ErrorNew ''cannot use a public key for signing'')
      else if Use jwk \<noteq> ''sig'' \<and> Use jwk \<noteq> [] then
        Some (ErrorNew (''invalid jwk use: found '' @ [CHR 0x27] @ Use jwk @ [CHR 0x27]
                        @ '', expecting 'sig' (signature)''))
      else if Algorithm jwk = [] then
        Some (ErrorNew ''flag '--alg' is required with the given key'')
      else jose_ValidateJWK E jwk)"

text \<open>Lines 577--580: validate exp.\<close>

definition validate_exp :: "jwt_env \<Rightarrow> cli_Context \<Rightarrow> bool \<Rightarrow> error option" where
  "validate_exp E ctx isSubtle =
     (if \<not> isSubtle \<and> ctx_IsSet ctx ''exp''
         \<and> time_Before (NumericDate_Time (UnixNumericDate (ctx_Int64 ctx ''exp'')))
              (time_Now_578 E)
      then Some (ErrorNew
             ''flag '--exp' must be in the future unless the '--subtle' flag is provided'')
      else None)"

text \<open>Lines 582--603: add claims.\<close>

definition add_claims :: "jwt_env \<Rightarrow> cli_Context \<Rightarrow> error + Claims" where
  "add_claims E ctx =
     (let c = \<lparr>c_Issuer = ctx_String ctx ''iss'',
               c_Subject = ctx_String ctx ''sub'',
               c_Audience = ctx_StringSlice ctx ''aud'',
               c_Expiry = UnixNumericDate (ctx_Int64 ctx ''exp''),
               c_NotBefore = UnixNumericDate (ctx_Int64 ctx ''nbf''),
               c_IssuedAt = UnixNumericDate (ctx_Int64 ctx ''iat''),
               c_ID = ctx_String ctx ''jti''\<rparr>;
          now = time_Now_592 E;
          c = (if c_NotBefore c = None then c\<lparr>c_NotBefore := NewNumericDate now\<rparr> else c);
          c = (if c_IssuedAt c = None then c\<lparr>c_IssuedAt := NewNumericDate now\<rparr> else c)
      in
        if c_ID c = [] \<and> ctx_IsSet ctx ''jti'' then
          (case randutil_Hex E 40 of
             Inl err \<Rightarrow> Inl (Wrap err ''error creating random jti'')
           | Inr s \<Rightarrow> Inr (c\<lparr>c_ID := s\<rparr>))
        else Inr c)"

text \<open>Lines 605--619: validate recommended claims.\<close>

definition validate_claims :: "jwt_env \<Rightarrow> bool \<Rightarrow> Claims \<Rightarrow> error option" where
  "validate_claims E isSubtle c =
     (if \<not> isSubtle then
        (if length (c_Issuer c) = 0 then
           Some (ErrorNew ''flag '--iss' is required unless '--subtle' is used'')
         else if length (c_Audience c) = 0 then
           Some (ErrorNew ''flag '--aud' is required unless '--subtle' is used'')
         else if length (c_Subject c) = 0 then
           Some (ErrorNew ''flag '--sub' is required unless '--subtle' is used'')
         else if c_Expiry c = None then
           Some (ErrorNew ''flag '--exp' is required unless '--subtle' is used'')
         else if time_Before (NumericDate_Time (c_Expiry c)) (time_Now_616 E) then
           Some (ErrorNew ''flag '--exp' must be in the future unless '--subtle' is used'')
         else None)
      else None)"

text \<open>Lines 621--626: the signer options.\<close>

definition signer_options :: "cli_Context \<Rightarrow> JSONWebKey \<Rightarrow> SignerOptions" where
  "signer_options ctx jwk =
     (let so = WithType new_SignerOptions ''JWT''
      in if \<not> ctx_Bool ctx ''no-kid'' \<and> KeyID jwk \<noteq> []
         then WithHeader so ''kid'' (JString (KeyID jwk))
         else so)"

text \<open>Lines 636--641: the claim that overwrites \<open>aud\<close> for a single audience.\<close>

definition aud_override :: "Claims \<Rightarrow> json_object" where
  "aud_override c =
     (if length (c_Audience c) = 1 then [''aud'' \<mapsto> JString (c_Audience c ! 0)]
      else Map.empty)"

text \<open>Lines 556--646: from the key that was read to the serialized token.\<close>

definition sign_claims ::
    "jwt_env \<Rightarrow> cli_Context \<Rightarrow> bool \<Rightarrow> JSONWebKey \<Rightarrow> json_object \<Rightarrow> error + compact_JWT" where
  "sign_claims E ctx isSubtle jwk payload =
     (case check_key E jwk of
        Some err \<Rightarrow> Inl err
      | None \<Rightarrow>
     (case validate_exp E ctx isSubtle of
        Some err \<Rightarrow> Inl err
      | None \<Rightarrow>
     (case add_claims E ctx of
        Inl err \<Rightarrow> Inl err
      | Inr c \<Rightarrow>
     (case validate_claims E isSubtle c of
        Some err \<Rightarrow> Inl err
      | None \<Rightarrow>
     (case jose_NewSigner E (Algorithm jwk) (Key jwk) (signer_options ctx jwk) of
        Inl err \<Rightarrow> Inl (Wrap err ''error creating JWT signer'')
      | Inr signer \<Rightarrow>
     (case CompactSerialize E
             (builder_Claims
                (builder_Claims (builder_Claims (jose_Signed signer) (Claims_json c))
                   (aud_override c))
                payload) of
        Inl err \<Rightarrow> Inl (Wrap err ''error serializing JWT'')
      | Inr raw \<Rightarrow> Inr raw))))))"

text \<open>
  \<open>signAction\<close>: the events in order, and the error it returns (\<open>None\<close> is Go's nil).
\<close>

definition signAction :: "jwt_env \<Rightarrow> cli_Context \<Rightarrow> io_event list \<times> error option" where
  "signAction E ctx =
     (case payload_from_args E ctx of
        (io1, Inl err) \<Rightarrow> (io1, Some err)
      | (io1, Inr payload) \<Rightarrow>
          (let alg = ctx_String ctx ''alg'';
               isSubtle = ctx_Bool ctx ''subtle'';
               key = ctx_String ctx ''key'';
               jwks = ctx_String ctx ''jwks'';
               kid = ctx_String ctx ''kid''
           in
             case validate_key_jwks_kid key jwks kid of
               Some err \<Rightarrow> (io1, Some err)
             | None \<Rightarrow>
                 (case read_key E key jwks (parse_options ctx alg kid isSubtle) of
                    (io2, Inl err) \<Rightarrow> (io1 @ io2, Some err)
                  | (io2, Inr jwk) \<Rightarrow>
                      (case sign_claims E ctx isSubtle jwk payload of
                         Inl err \<Rightarrow> (io1 @ io2, Some err)
                       | Inr raw \<Rightarrow> (io1 @ io2 @ [IoPrintln raw], None)))))"

text \<open>The tokens a run printed, and the key files it opened.\<close>

fun printed :: "io_event list \<Rightarrow> compact_JWT list" where
  "printed [] = []"
| "printed (IoPrintln t # io) = t # printed io"
| "printed (_ # io) = printed io"

fun key_io :: "io_event \<Rightarrow> bool" where
  "key_io (IoParseKey _ _) = True"
| "key_io (IoParseKeySet _ _) = True"
| "key_io _ = False"

section \<open>Example inputs\<close>

text \<open>
  Concrete environments, configurations and requests on which the theorems below are
  instantiated.
\<close>

definition example_authority :: Authority where
  "example_authority =
     \<lparr>authority_Revoke =
        (\<lambda>opts. if Serial opts = ''dead'' then Some (ErrorNew ''already revoked'') else None)\<rparr>"

definition example_jwk :: JSONWebKey where
  "example_jwk =
     \<lparr>Key = PrivateKey ''d'', KeyID = ''key-1'', Algorithm = ''ES256'', Use = ''sig''\<rparr>"

definition example_ca_env :: "Config \<Rightarrow> ca_env" where
  "example_ca_env cfg =
     \<lparr>utils_ReadFile = (\<lambda>f. Inr ''{}''),
      json_Unmarshal_Config = (\<lambda>b. Inr cfg),
      authority_New = (\<lambda>cfg. Inr example_authority),
      x509_ParseCertificate =
        (\<lambda>b. if b = [] then Inl (ErrorNew ''asn1: syntax error'') else Inr (X509Certificate b)),
      ui_choose = (\<lambda>ps. Inl SelectionError),
      exec_Step = (\<lambda>args. Inr ''bearer''),
      strings_TrimSpace = (\<lambda>s. s),
      GetIdentityToken = (\<lambda>p subject url. Inr ''identity''),
      jose_Decrypt = (\<lambda>prompt enc opts. Inr enc),
      json_Unmarshal_JWK = (\<lambda>b. Inr example_jwk),
      token_header = (\<lambda>jwk. [''alg'' \<mapsto> JString (Algorithm jwk)]),
      token_signature = (\<lambda>jwk h c. Inr ''signature'')\<rparr>"

definition config_without_provisioners :: Config where
  "config_without_provisioners =
     \<lparr>DNSNames = [''ca.example.com''], Root = [''root.crt''], IntermediateCert = ''int.crt'',
      AuthorityConfig = Some \<lparr>Provisioners = []\<rparr>\<rparr>"

definition config_without_dns :: Config where
  "config_without_dns =
     \<lparr>DNSNames = [], Root = [''root.crt''], IntermediateCert = ''int.crt'',
      AuthorityConfig = Some \<lparr>Provisioners = [OtherProvisioner ''*provisioner.ACME'']\<rparr>\<rparr>"

definition example_ca :: "Config \<Rightarrow> offlineCA" where
  "example_ca cfg = \<lparr>authority = example_authority, config = cfg, configFile = ''ca.json''\<rparr>"

definition ott_request :: RevokeRequest where
  "ott_request = \<lparr>req_Serial = ''1234'', req_OTT = ''token'', req_ReasonCode = 1,
                   req_Reason = ''key compromise'', req_Passive = True\<rparr>"

definition mtls_request :: RevokeRequest where
  "mtls_request = \<lparr>req_Serial = ''1234'', req_OTT = [], req_ReasonCode = 1,
                   req_Reason = ''key compromise'', req_Passive = True\<rparr>"

definition mtls_transport :: RoundTripper where
  "mtls_transport =
     Transport (Some \<lparr>TLSClientConfig =
                        Some \<lparr>Certificates = [\<lparr>Certificate = [''leaf'', ''intermediate'']\<rparr>]\<rparr>\<rparr>)"

definition admin_public_key :: JSONWebKey where
  "admin_public_key =
     \<lparr>Key = PublicKey ''Q'', KeyID = ''key-1'', Algorithm = ''ES256'', Use = ''sig''\<rparr>"

definition admin_provisioner :: JWK_provisioner where
  "admin_provisioner =
     \<lparr>jwk_Name = ''admin'', jwk_Key = Some admin_public_key, jwk_EncryptedKey = ''eyJhbGciOi''\<rparr>"

definition config_admin :: Config where
  "config_admin =
     \<lparr>DNSNames = [''ca.example.com''], Root = [''root.crt''], IntermediateCert = ''int.crt'',
      AuthorityConfig = Some \<lparr>Provisioners = [JWK admin_provisioner]\<rparr>\<rparr>"

definition no_flags :: cli_Context where
  "no_flags = \<lparr>ctx_Args = [], ctx_flags = Map.empty\<rparr>"

definition example_jwt_env :: "json_object \<Rightarrow> time \<Rightarrow> jwt_env" where
  "example_jwt_env payload now =
     \<lparr>os_Stdin_Stat = Inr (64, False),
      os_Stdin_Decode = Inr payload,
      ioutil_ReadFile = (\<lambda>f. Inl (ErrorNew ''open: no such file or directory'')),
      json_Decode = (\<lambda>b. Inr Map.empty),
      jose_ParseKey = (\<lambda>path opts. Inr example_jwk),
      jose_ParseKeySet = (\<lambda>path opts. Inr example_jwk),
      jose_ValidateJWK = (\<lambda>jwk. None),
      time_Now_578 = now,
      time_Now_592 = now,
      time_Now_616 = now,
      rand_error = None,
      rand_draw = (\<lambda>i. i),
      signer_error = (\<lambda>alg k. None),
      sign_error = (\<lambda>alg k h p. None),
      sign_bytes = (\<lambda>alg k h p. ''signature'')\<rparr>"

definition example_now :: time where
  "example_now = 1600000000 * 1000000000"

definition sign_flags :: "int \<Rightarrow> cli_Context" where
  "sign_flags exp =
     \<lparr>ctx_Args = [],
      ctx_flags = [''key'' \<mapsto> FString ''priv.jwk'', ''iss'' \<mapsto> FString ''issuer'',
                   ''aud'' \<mapsto> FStrings [''api''], ''sub'' \<mapsto> FString ''subject'',
                   ''exp'' \<mapsto> FInt64 exp]\<rparr>"

definition colliding_payload :: json_object where
  "colliding_payload =
     [''iss'' \<mapsto> JString ''someone else'', ''aud'' \<mapsto> JArray [JString ''api''],
      ''admin'' \<mapsto> JBool True]"

definition no_kid_flags :: cli_Context where
  "no_kid_flags =
     \<lparr>ctx_Args = [],
      ctx_flags = [''key'' \<mapsto> FString ''priv.jwk'', ''subtle'' \<mapsto> FBool True,
                   ''no-kid'' \<mapsto> FBool True]\<rparr>"

definition key_flags :: "string \<Rightarrow> string \<Rightarrow> string \<Rightarrow> cli_Context" where
  "key_flags key jwks kid =
     \<lparr>ctx_Args = [],
      ctx_flags = [''key'' \<mapsto> FString key, ''jwks'' \<mapsto> FString jwks, ''kid'' \<mapsto> FString kid,
                   ''subtle'' \<mapsto> FBool True]\<rparr>"

definition jti_flags :: cli_Context where
  "jti_flags =
     \<lparr>ctx_Args = [],
      ctx_flags = [''key'' \<mapsto> FString ''priv.jwk'', ''iss'' \<mapsto> FString ''issuer'',
                   ''aud'' \<mapsto> FStrings [''api''], ''sub'' \<mapsto> FString ''subject'',
                   ''exp'' \<mapsto> FInt64 1700000000, ''jti'' \<mapsto> FString []]\<rparr>"



section \<open>Properties of the offline authority\<close>

text \<open>
  C3.  Whenever the configuration file is read and decoded and the decoded configuration
  has no authority configuration (nil) or an empty list of provisioners, \<open>newOfflineCA\<close>
  returns the error "error parsing <file>: no provisioners found"; the only thing it did
  is read the file, so no authority was constructed.
\<close>

theorem newOfflineCA_no_provisioners:
  assumes "utils_ReadFile E file = Inr b"
    and "json_Unmarshal_Config E b = Inr cfg"
    and "AuthorityConfig cfg = None
         \<or> (\<exists>ac. AuthorityConfig cfg = Some ac \<and> Provisioners ac = [])"
  shows "newOfflineCA E file =
           ([EvReadFile file],
            Inl (ErrorNew (''error parsing '' @ file @ '': no provisioners found'')))
         \<and> (\<forall>cfg'. EvAuthorityNew cfg' \<notin> set (fst (newOfflineCA E file)))"
proof -
  from assms(3) have "no_provisioners cfg"
    by (auto simp: no_provisioners_def)
  with assms(1,2) show ?thesis
    by (simp add: newOfflineCA_def)
qed

theorem newOfflineCA_no_provisioners_witness:
  "utils_ReadFile (example_ca_env config_without_provisioners) ''ca.json'' = Inr ''{}''
   \<and> json_Unmarshal_Config (example_ca_env config_without_provisioners) ''{}''
       = Inr config_without_provisioners
   \<and> Provisioners (the (AuthorityConfig config_without_provisioners)) = []
   \<and> newOfflineCA (example_ca_env config_without_provisioners) ''ca.json'' =
       ([EvReadFile ''ca.json''],
        Inl (ErrorNew ''error parsing ca.json: no provisioners found''))"
  using newOfflineCA_no_provisioners
          [of "example_ca_env config_without_provisioners" "''ca.json''" "''{}''"
              config_without_provisioners]
  by (simp add: example_ca_env_def config_without_provisioners_def)

text \<open>Helper facts about \<open>Revoke\<close>: one per path through the function.\<close>

lemma revoke_using_authority_eq:
  "revoke_using_authority c opts =
     ([EvAuthorityRevoke opts],
      Return (case authority_Revoke (authority c) opts of
                None \<Rightarrow> Inr \<lparr>Status = ''ok''\<rparr>
              | Some err \<Rightarrow> Inl err))"
  by (simp add: revoke_using_authority_def split: option.split)

lemma Revoke_ott:
  assumes "req_OTT req \<noteq> []"
  shows "Revoke E c req rt =
           revoke_using_authority c
             \<lparr>Serial = req_Serial req, Reason = req_Reason req,
              ReasonCode = req_ReasonCode req, PassiveOnly = req_Passive req,
              MTLS = False, Crt = None, OTT = req_OTT req\<rparr>"
  using assms by (simp add: Revoke_def Let_def)

lemma Revoke_mtls:
  assumes "req_OTT req = []" and "peer_asn1Data rt = Return der"
    and "x509_ParseCertificate E der = Inr crt"
  shows "Revoke E c req rt =
           revoke_using_authority c
             \<lparr>Serial = req_Serial req, Reason = req_Reason req,
              ReasonCode = req_ReasonCode req, PassiveOnly = req_Passive req,
              MTLS = True, Crt = Some crt, OTT = []\<rparr>"
  using assms by (simp add: Revoke_def Let_def)

lemma Revoke_mtls_panic:
  assumes "req_OTT req = []" and "peer_asn1Data rt = Panic p"
  shows "Revoke E c req rt = ([], Panic p)"
  using assms by (simp add: Revoke_def Let_def)

lemma Revoke_mtls_parse_error:
  assumes "req_OTT req = []" and "peer_asn1Data rt = Return der"
    and "x509_ParseCertificate E der = Inl err"
  shows "Revoke E c req rt = ([], Return (Inl (Wrap err ''error parsing certificate'')))"
  using assms by (simp add: Revoke_def Let_def)

lemma Revoke_cases:
  obtains (ott) opts where "req_OTT req \<noteq> []" "Revoke E c req rt = revoke_using_authority c opts"
      "MTLS opts = False" "OTT opts = req_OTT req" "Crt opts = None"
  | (mtls) opts where "req_OTT req = []" "Revoke E c req rt = revoke_using_authority c opts"
      "MTLS opts = True" "OTT opts = []" "Crt opts \<noteq> None"
  | (panic) p where "req_OTT req = []" "Revoke E c req rt = ([], Panic p)"
  | (parse) err where "req_OTT req = []" "Revoke E c req rt = ([], Return (Inl err))"
proof (cases "req_OTT req = []")
  case False
  then show ?thesis using Revoke_ott[OF False, of E c rt] ott by simp
next
  case True
  show ?thesis
  proof (cases "peer_asn1Data rt")
    case (Panic p)
    then show ?thesis using Revoke_mtls_panic[OF True Panic] panic True by simp
  next
    case (Return der)
    show ?thesis
    proof (cases "x509_ParseCertificate E der")
      case (Inl err)
      then show ?thesis using Revoke_mtls_parse_error[OF True Return Inl] parse True by simp
    next
      case (Inr crt)
      then show ?thesis using Revoke_mtls[OF True Return Inr] mtls True by simp
    qed
  qed
qed

lemma Revoke_events:
  assumes "EvAuthorityRevoke opts \<in> set (fst (Revoke E c req rt))"
  shows "MTLS opts = (req_OTT req = []) \<and> OTT opts = req_OTT req
         \<and> (Crt opts \<noteq> None) = (req_OTT req = [])"
  using assms
  by (cases rule: Revoke_cases[of req E c rt]) (auto simp: revoke_using_authority_eq)

lemma Revoke_success:
  assumes "snd (Revoke E c req rt) = Return (Inr resp)"
  shows "resp = \<lparr>Status = ''ok''\<rparr>
         \<and> (\<exists>opts. fst (Revoke E c req rt) = [EvAuthorityRevoke opts]
                \<and> authority_Revoke (authority c) opts = None)"
  using assms
  by (cases rule: Revoke_cases[of req E c rt])
     (auto simp: revoke_using_authority_eq split: option.splits)

text \<open>
  C6.  \<open>Revoke\<close> has two modes, chosen by whether the request carries a one-time token.
  With a non-empty token the authority is called once, with the request's serial, reason,
  reason code and passive flag, the token, no certificate and \<open>MTLS = False\<close>; the
  transport is not looked at.  With an empty token, a transport that holds a leaf
  certificate and a certificate that parses, the authority is called once with that
  certificate, no token and \<open>MTLS = True\<close>.  Whatever call reaches the authority has
  \<open>MTLS\<close> set exactly when the request has no token.  When the authority reports no
  error the response is \<open>{Status: "ok"}\<close>, otherwise its error is returned; and every
  successful response is \<open>{Status: "ok"}\<close> after one call the authority accepted.
\<close>

theorem Revoke_two_modes:
  "(req_OTT req \<noteq> [] \<longrightarrow>
      Revoke E c req rt =
        ([EvAuthorityRevoke
            \<lparr>Serial = req_Serial req, Reason = req_Reason req,
             ReasonCode = req_ReasonCode req, PassiveOnly = req_Passive req,
             MTLS = False, Crt = None, OTT = req_OTT req\<rparr>],
         Return (case authority_Revoke (authority c)
                        \<lparr>Serial = req_Serial req, Reason = req_Reason req,
                         ReasonCode = req_ReasonCode req, PassiveOnly = req_Passive req,
                         MTLS = False, Crt = None, OTT = req_OTT req\<rparr> of
                   None \<Rightarrow> Inr \<lparr>Status = ''ok''\<rparr>
                 | Some err \<Rightarrow> Inl err)))
   \<and> (req_OTT req = [] \<longrightarrow> peer_asn1Data rt = Return der
        \<longrightarrow> x509_ParseCertificate E der = Inr crt \<longrightarrow>
      Revoke E c req rt =
        ([EvAuthorityRevoke
            \<lparr>Serial = req_Serial req, Reason = req_Reason req,
             ReasonCode = req_ReasonCode req, PassiveOnly = req_Passive req,
             MTLS = True, Crt = Some crt, OTT = []\<rparr>],
         Return (case authority_Revoke (authority c)
                        \<lparr>Serial = req_Serial req, Reason = req_Reason req,
                         ReasonCode = req_ReasonCode req, PassiveOnly = req_Passive req,
                         MTLS = True, Crt = Some crt, OTT = []\<rparr> of
                   None \<Rightarrow> Inr \<lparr>Status = ''ok''\<rparr>
                 | Some err \<Rightarrow> Inl err)))
   \<and> (\<forall>opts. EvAuthorityRevoke opts \<in> set (fst (Revoke E c req rt)) \<longrightarrow>
         MTLS opts = (req_OTT req = []) \<and> OTT opts = req_OTT req
         \<and> (Crt opts \<noteq> None) = (req_OTT req = []))
   \<and> (\<forall>resp. snd (Revoke E c req rt) = Return (Inr resp) \<longrightarrow>
         resp = \<lparr>Status = ''ok''\<rparr>
         \<and> (\<exists>opts. fst (Revoke E c req rt) = [EvAuthorityRevoke opts]
                \<and> authority_Revoke (authority c) opts = None))"
proof (intro conjI impI allI)
  assume "req_OTT req \<noteq> []"
  then show "Revoke E c req rt =
        ([EvAuthorityRevoke
            \<lparr>Serial = req_Serial req, Reason = req_Reason req,
             ReasonCode = req_ReasonCode req, PassiveOnly = req_Passive req,
             MTLS = False, Crt = None, OTT = req_OTT req\<rparr>],
         Return (case authority_Revoke (authority c)
                        \<lparr>Serial = req_Serial req, Reason = req_Reason req,
                         ReasonCode = req_ReasonCode req, PassiveOnly = req_Passive req,
                         MTLS = False, Crt = None, OTT = req_OTT req\<rparr> of
                   None \<Rightarrow> Inr \<lparr>Status = ''ok''\<rparr>
                 | Some err \<Rightarrow> Inl err))"
    by (simp add: Revoke_ott revoke_using_authority_eq)
next
  assume "req_OTT req = []" "peer_asn1Data rt = Return der"
    "x509_ParseCertificate E der = Inr crt"
  then show "Revoke E c req rt =
        ([EvAuthorityRevoke
            \<lparr>Serial = req_Serial req, Reason = req_Reason req,
             ReasonCode = req_ReasonCode req, PassiveOnly = req_Passive req,
             MTLS = True, Crt = Some crt, OTT = []\<rparr>],
         Return (case authority_Revoke (authority c)
                        \<lparr>Serial = req_Serial req, Reason = req_Reason req,
                         ReasonCode = req_ReasonCode req, PassiveOnly = req_Passive req,
                         MTLS = True, Crt = Some crt, OTT = []\<rparr> of
                   None \<Rightarrow> Inr \<lparr>Status = ''ok''\<rparr>
                 | Some err \<Rightarrow> Inl err))"
    by (simp add: Revoke_mtls[of req rt der E crt] revoke_using_authority_eq)
next
  fix opts assume "EvAuthorityRevoke opts \<in> set (fst (Revoke E c req rt))"
  from Revoke_events[OF this]
  show "MTLS opts = (req_OTT req = [])" "OTT opts = req_OTT req"
    "(Crt opts \<noteq> None) = (req_OTT req = [])" by simp_all
next
  fix resp assume "snd (Revoke E c req rt) = Return (Inr resp)"
  from Revoke_success[OF this]
  show "resp = \<lparr>Status = ''ok''\<rparr>"
    "\<exists>opts. fst (Revoke E c req rt) = [EvAuthorityRevoke opts]
                \<and> authority_Revoke (authority c) opts = None" by simp_all
qed

theorem Revoke_two_modes_witness:
  "req_OTT ott_request \<noteq> []
   \<and> Revoke (example_ca_env config_without_dns) (example_ca config_without_dns)
       ott_request NilRoundTripper =
       ([EvAuthorityRevoke
           \<lparr>Serial = ''1234'', Reason = ''key compromise'', ReasonCode = 1,
            PassiveOnly = True, MTLS = False, Crt = None, OTT = ''token''\<rparr>],
        Return (Inr \<lparr>Status = ''ok''\<rparr>))
   \<and> req_OTT mtls_request = []
   \<and> peer_asn1Data mtls_transport = Return ''leaf''
   \<and> x509_ParseCertificate (example_ca_env config_without_dns) ''leaf''
       = Inr (X509Certificate ''leaf'')
   \<and> Revoke (example_ca_env config_without_dns) (example_ca config_without_dns)
       mtls_request mtls_transport =
       ([EvAuthorityRevoke
           \<lparr>Serial = ''1234'', Reason = ''key compromise'', ReasonCode = 1,
            PassiveOnly = True, MTLS = True, Crt = Some (X509Certificate ''leaf''),
            OTT = []\<rparr>],
        Return (Inr \<lparr>Status = ''ok''\<rparr>))"
proof -
  let ?E = "example_ca_env config_without_dns"
  let ?c = "example_ca config_without_dns"
  have h1: "req_OTT ott_request \<noteq> []"
    by (simp add: ott_request_def)
  have h2: "req_OTT mtls_request = []"
    by (simp add: mtls_request_def)
  have h3: "peer_asn1Data mtls_transport = Return ''leaf''"
    by (simp add: mtls_transport_def peer_asn1Data_def index0_def)
  have h4: "x509_ParseCertificate ?E ''leaf'' = Inr (X509Certificate ''leaf'')"
    by (simp add: example_ca_env_def)
  have a: "authority_Revoke (authority ?c) opts = None" if "Serial opts = ''1234''" for opts
    using that by (simp add: example_ca_def example_authority_def)
  from Revoke_two_modes
         [where req = ott_request and E = ?E and c = ?c and rt = NilRoundTripper,
          THEN conjunct1, rule_format, OF h1]
  have r1: "Revoke ?E ?c ott_request NilRoundTripper =
       ([EvAuthorityRevoke
           \<lparr>Serial = ''1234'', Reason = ''key compromise'', ReasonCode = 1,
            PassiveOnly = True, MTLS = False, Crt = None, OTT = ''token''\<rparr>],
        Return (Inr \<lparr>Status = ''ok''\<rparr>))"
    by (simp add: ott_request_def a)
  from Revoke_two_modes
         [where req = mtls_request and E = ?E and c = ?c and rt = mtls_transport,
          THEN conjunct2, THEN conjunct1, rule_format, OF h2 h3 h4]
  have r2: "Revoke ?E ?c mtls_request mtls_transport =
       ([EvAuthorityRevoke
           \<lparr>Serial = ''1234'', Reason = ''key compromise'', ReasonCode = 1,
            PassiveOnly = True, MTLS = True, Crt = Some (X509Certificate ''leaf''),
            OTT = []\<rparr>],
        Return (Inr \<lparr>Status = ''ok''\<rparr>))"
    by (simp add: mtls_request_def a)
  from h1 r1 h2 h3 h4 r2 show ?thesis by (intro conjI)
qed





text \<open>
  C2.  The scenario of the spec: the configuration has exactly one provisioner, a JWK
  provisioner named "admin" with an encrypted key that decrypts and decodes, and the first
  DNS name is "ca.example.com".  Then \<open>GenerateToken\<close> for the sign type and the subject
  "user@example.com" selects that provisioner without prompting, leaves the shared context
  as it was, and returns what the signer makes of a header whose \<open>kid\<close> is the
  provisioner's key id and of claims with \<open>iss = "admin"\<close>,
  \<open>aud = "https://ca.example.com/sign"\<close> and \<open>sub = "user@example.com"\<close>: the
  three-part token with that header and those claims when the signature succeeds, the
  signer's error otherwise.
\<close>

theorem GenerateToken_single_JWK_provisioner:
  assumes dns: "DNSNames (config c) = ''ca.example.com'' # names"
    and provs: "AuthorityConfig (config c) = Some \<lparr>Provisioners = [JWK prov]\<rparr>"
    and name: "jwk_Name prov = ''admin''"
    and pub: "jwk_Key prov = Some pub"
    and enc: "jwk_EncryptedKey prov \<noteq> []"
    and dec: "jose_Decrypt E ''Please enter the password to decrypt the provisioner key''
                (jwk_EncryptedKey prov)
                ([WithUIOptions]
                 @ (if length (ctx_String ctx ''password-file'') \<noteq> 0
                    then [WithPasswordFile (ctx_String ctx ''password-file'')] else []))
              = Inr decrypted"
    and unm: "json_Unmarshal_JWK E decrypted = Inr jwk"
  shows "\<exists>header claims.
           header ''kid'' = Some (JString (KeyID pub))
           \<and> claims ''iss'' = Some (JString ''admin'')
           \<and> claims ''aud'' = Some (JString ''https://ca.example.com/sign'')
           \<and> claims ''sub'' = Some (JString ''user@example.com'')
           \<and> GenerateToken E c sc ctx signType ''user@example.com'' [] notBefore notAfter =
               Return (sc,
                 case token_signature E jwk header claims of
                   Inl err \<Rightarrow> Inl err
                 | Inr sig \<Rightarrow>
                     Inr (CompactToken \<lparr>jwt_protected = header, jwt_payload = claims,
                                        jwt_signature = sig\<rparr>))"
proof -
  let ?claims = "[''iss'' \<mapsto> JString ''admin'',
                  ''aud'' \<mapsto> JString ''https://ca.example.com/sign'',
                  ''sub'' \<mapsto> JString ''user@example.com'',
                  ''nbf'' \<mapsto> JNumber (notBefore div 1000000000),
                  ''exp'' \<mapsto> JNumber (notAfter div 1000000000)]"
  let ?header = "(token_header E jwk)(''kid'' \<mapsto> JString (KeyID pub))"
  have aud: "Audience c signType = Return ''https://ca.example.com/sign''"
    using dns by (simp add: Audience_def index0_def signType_def revokeType_def)
  have ps: "Provisioners_of c = Return [JWK prov]"
    using provs by (simp add: Provisioners_of_def)
  have sel: "provisionerPrompt E ctx [JWK prov] = Inr (JWK prov)"
    by (simp add: provisionerPrompt_def)
  have gen: "generateToken E signType ''user@example.com'' [] (KeyID pub) ''admin''
               ''https://ca.example.com/sign'' (Root_First c) notBefore notAfter jwk =
             (case token_signature E jwk ?header ?claims of
                Inl err \<Rightarrow> Inl err
              | Inr sig \<Rightarrow>
                  Inr \<lparr>jwt_protected = ?header, jwt_payload = ?claims, jwt_signature = sig\<rparr>)"
    by (simp add: generateToken_def Let_def)
  have tok: "jwk_token E ctx prov signType ''user@example.com'' []
               ''https://ca.example.com/sign'' (Root_First c) notBefore notAfter =
             Return (case token_signature E jwk ?header ?claims of
                       Inl err \<Rightarrow> Inl err
                     | Inr sig \<Rightarrow>
                         Inr (CompactToken \<lparr>jwt_protected = ?header, jwt_payload = ?claims,
                                            jwt_signature = sig\<rparr>))"
    using name pub enc dec unm
    by (simp add: jwk_token_def Let_def gen split: sum.split)
  have "GenerateToken E c sc ctx signType ''user@example.com'' [] notBefore notAfter =
          Return (sc,
            case token_signature E jwk ?header ?claims of
              Inl err \<Rightarrow> Inl err
            | Inr sig \<Rightarrow>
                Inr (CompactToken \<lparr>jwt_protected = ?header, jwt_payload = ?claims,
                                   jwt_signature = sig\<rparr>))"
    by (simp add: GenerateToken_def Let_def aud ps sel tok)
  then show ?thesis
    by (intro exI[of _ ?header] exI[of _ ?claims]) simp
qed

theorem GenerateToken_single_JWK_provisioner_witness:
  "DNSNames (config (example_ca config_admin)) = [''ca.example.com'']
   \<and> AuthorityConfig (config (example_ca config_admin))
       = Some \<lparr>Provisioners = [JWK admin_provisioner]\<rparr>
   \<and> jwk_Name admin_provisioner = ''admin''
   \<and> jwk_Key admin_provisioner = Some admin_public_key
   \<and> jwk_EncryptedKey admin_provisioner \<noteq> []
   \<and> (\<exists>t. GenerateToken (example_ca_env config_admin) (example_ca config_admin) False
              no_flags signType ''user@example.com'' [] 1000000000 2000000000
            = Return (False, Inr (CompactToken t))
          \<and> jwt_protected t ''kid'' = Some (JString ''key-1'')
          \<and> jwt_payload t ''iss'' = Some (JString ''admin'')
          \<and> jwt_payload t ''aud'' = Some (JString ''https://ca.example.com/sign'')
          \<and> jwt_payload t ''sub'' = Some (JString ''user@example.com''))"
proof -
  let ?E = "example_ca_env config_admin"
  let ?c = "example_ca config_admin"
  have h1: "DNSNames (config ?c) = ''ca.example.com'' # []"
    by (simp add: example_ca_def config_admin_def)
  have h2: "AuthorityConfig (config ?c) = Some \<lparr>Provisioners = [JWK admin_provisioner]\<rparr>"
    by (simp add: example_ca_def config_admin_def)
  have h3: "jwk_Name admin_provisioner = ''admin''"
    and h4: "jwk_Key admin_provisioner = Some admin_public_key"
    and h5: "jwk_EncryptedKey admin_provisioner \<noteq> []"
    by (simp_all add: admin_provisioner_def)
  have h6: "jose_Decrypt ?E ''Please enter the password to decrypt the provisioner key''
                (jwk_EncryptedKey admin_provisioner)
                ([WithUIOptions]
                 @ (if length (ctx_String no_flags ''password-file'') \<noteq> 0
                    then [WithPasswordFile (ctx_String no_flags ''password-file'')] else []))
              = Inr ''eyJhbGciOi''"
    by (simp add: example_ca_env_def admin_provisioner_def)
  have h7: "json_Unmarshal_JWK ?E ''eyJhbGciOi'' = Inr example_jwk"
    by (simp add: example_ca_env_def)
  have sg: "token_signature ?E jwk h cl = Inr ''signature''" for jwk h cl
    by (simp add: example_ca_env_def)
  have kid: "KeyID admin_public_key = ''key-1''"
    by (simp add: admin_public_key_def)
  from GenerateToken_single_JWK_provisioner
         [OF h1 h2 h3 h4 h5 h6 h7, of False 1000000000 2000000000]
  have "\<exists>t. GenerateToken ?E ?c False no_flags signType ''user@example.com'' []
               1000000000 2000000000
            = Return (False, Inr (CompactToken t))
          \<and> jwt_protected t ''kid'' = Some (JString ''key-1'')
          \<and> jwt_payload t ''iss'' = Some (JString ''admin'')
          \<and> jwt_payload t ''aud'' = Some (JString ''https://ca.example.com/sign'')
          \<and> jwt_payload t ''sub'' = Some (JString ''user@example.com'')"
    by (auto simp: sg kid)
  with h1 h2 h3 h4 h5 show ?thesis by simp
qed

section \<open>Properties of the sign workflow\<close>

text \<open>
  Helper facts.  Reading the payload and the key prints nothing, and reading the payload
  opens no key file.  A run of \<open>signAction\<close> that returns nil went through every block:
  the payload was read, the key flags were accepted, the key was read, \<open>sign_claims\<close>
  gave the token, and that token is the one thing printed.  A token from \<open>sign_claims\<close>
  has the claim set merged in the order of line 643 and the header of the signer options.
\<close>

lemma printed_append: "printed (xs @ ys) = printed xs @ printed ys"
  by (induction xs rule: printed.induct) simp_all

lemma filter_key_io_decode_stdin:
  assumes "filter key_io io = []" "printed io = []"
  shows "filter key_io (fst (decode_stdin E io)) = [] \<and> printed (fst (decode_stdin E io)) = []"
  using assms by (simp add: decode_stdin_def printed_append split: sum.split)

lemma readPayload_events:
  "filter key_io (fst (readPayload E f)) = [] \<and> printed (fst (readPayload E f)) = []"
  using filter_key_io_decode_stdin[of "[IoStdinStat]" E] filter_key_io_decode_stdin[of "[]" E]
  by (simp add: readPayload_def split: sum.split prod.split)

lemma payload_from_args_events:
  "filter key_io (fst (payload_from_args E ctx)) = []
   \<and> printed (fst (payload_from_args E ctx)) = []"
  using readPayload_events
  by (simp add: payload_from_args_def split: list.split)

lemma read_key_printed: "printed (fst (read_key E key jwks opts)) = []"
  by (simp add: read_key_def)

lemma signAction_success:
  assumes "signAction E ctx = (io, None)"
  obtains io1 payload io2 jwk raw where
    "payload_from_args E ctx = (io1, Inr payload)"
    "validate_key_jwks_kid (ctx_String ctx ''key'') (ctx_String ctx ''jwks'')
       (ctx_String ctx ''kid'') = None"
    "read_key E (ctx_String ctx ''key'') (ctx_String ctx ''jwks'')
       (parse_options ctx (ctx_String ctx ''alg'') (ctx_String ctx ''kid'')
          (ctx_Bool ctx ''subtle'')) = (io2, Inr jwk)"
    "sign_claims E ctx (ctx_Bool ctx ''subtle'') jwk payload = Inr raw"
    "io = io1 @ io2 @ [IoPrintln raw]"
    "printed io = [raw]"
proof -
  obtain io1 r1 where p: "payload_from_args E ctx = (io1, r1)"
    by (cases "payload_from_args E ctx")
  obtain io2 r2 where k: "read_key E (ctx_String ctx ''key'') (ctx_String ctx ''jwks'')
       (parse_options ctx (ctx_String ctx ''alg'') (ctx_String ctx ''kid'')
          (ctx_Bool ctx ''subtle'')) = (io2, r2)"
    by (cases "read_key E (ctx_String ctx ''key'') (ctx_String ctx ''jwks'')
       (parse_options ctx (ctx_String ctx ''alg'') (ctx_String ctx ''kid'')
          (ctx_Bool ctx ''subtle''))")
  from assms p k obtain payload jwk raw where
    "r1 = Inr payload"
    "validate_key_jwks_kid (ctx_String ctx ''key'') (ctx_String ctx ''jwks'')
       (ctx_String ctx ''kid'') = None"
    "r2 = Inr jwk"
    "sign_claims E ctx (ctx_Bool ctx ''subtle'') jwk payload = Inr raw"
    "io = io1 @ io2 @ [IoPrintln raw]"
    by (auto simp: signAction_def Let_def split: sum.splits option.splits)
  moreover from this p k have "printed io = [raw]"
    using payload_from_args_events[of E ctx]
      read_key_printed[of E "ctx_String ctx ''key''" "ctx_String ctx ''jwks''"
        "parse_options ctx (ctx_String ctx ''alg'') (ctx_String ctx ''kid'')
          (ctx_Bool ctx ''subtle'')"]
    by (simp add: printed_append)
  ultimately show ?thesis using that p k by simp
qed

lemma sign_claims_success:
  assumes "sign_claims E ctx isSubtle jwk payload = Inr raw"
  obtains c where
    "check_key E jwk = None"
    "validate_exp E ctx isSubtle = None"
    "add_claims E ctx = Inr c"
    "validate_claims E isSubtle c = None"
    "jwt_payload raw = Claims_json c ++ aud_override c ++ payload"
    "jwt_protected raw =
       [''alg'' \<mapsto> JString (Algorithm jwk)] ++ ExtraHeaders (signer_options ctx jwk)"
proof -
  from assms obtain c signer where
    a: "check_key E jwk = None" "validate_exp E ctx isSubtle = None"
       "add_claims E ctx = Inr c" "validate_claims E isSubtle c = None"
    and s: "jose_NewSigner E (Algorithm jwk) (Key jwk) (signer_options ctx jwk) = Inr signer"
    and r: "CompactSerialize E
             (builder_Claims
                (builder_Claims (builder_Claims (jose_Signed signer) (Claims_json c))
                   (aud_override c))
                payload) = Inr raw"
    by (auto simp: sign_claims_def split: sum.splits option.splits)
  from s have h: "signer_Headers signer =
       [''alg'' \<mapsto> JString (Algorithm jwk)] ++ ExtraHeaders (signer_options ctx jwk)"
    by (auto simp: jose_NewSigner_def split: option.splits)
  from r have "jwt_payload raw = Claims_json c ++ aud_override c ++ payload"
    and "jwt_protected raw = signer_Headers signer"
    by (auto simp: CompactSerialize_def Let_def builder_Claims_def jose_Signed_def
          split: option.splits)
  with a h that show ?thesis by simp
qed

text \<open>The definitions that evaluate a run of \<open>signAction\<close> on concrete inputs.\<close>

lemmas ctx_defs = ctx_String_def ctx_StringSlice_def ctx_Int64_def ctx_Bool_def ctx_IsSet_def

lemmas sign_defs =
  signAction_def payload_from_args_def readPayload_def decode_stdin_def
  validate_key_jwks_kid_def parse_options_def read_key_def sign_claims_def check_key_def
  validate_exp_def add_claims_def validate_claims_def signer_options_def aud_override_def
  jose_NewSigner_def CompactSerialize_def builder_Claims_def jose_Signed_def Claims_json_def
  omitempty_string_def omitempty_date_def new_SignerOptions_def WithHeader_def WithType_def
  IsPublic_def time_Before_def time_Unix_def time_zero_def UnixNumericDate_def
  NewNumericDate_def NumericDate_Time_def randutil_Hex_def Let_def

lemma add_claims_fields:
  assumes "add_claims E ctx = Inr c"
  shows "c_Issuer c = ctx_String ctx ''iss''"
    and "c_Subject c = ctx_String ctx ''sub''"
    and "c_Audience c = ctx_StringSlice ctx ''aud''"
    and "c_Expiry c = UnixNumericDate (ctx_Int64 ctx ''exp'')"
  using assms by (auto simp: add_claims_def Let_def split: if_splits sum.splits)

lemma example_run:
  "signAction (example_jwt_env p example_now) (sign_flags 1700000000) =
     ([IoStdinStat, IoStdinRead, IoParseKey ''priv.jwk'' [WithUse ''sig''],
       IoPrintln
         \<lparr>jwt_protected = [''alg'' \<mapsto> JString ''ES256'']
                            ++ [''typ'' \<mapsto> JString ''JWT'', ''kid'' \<mapsto> JString ''key-1''],
          jwt_payload =
            Map.empty ++ ([''iss'' \<mapsto> JString ''issuer''] ++ [''sub'' \<mapsto> JString ''subject'']
              ++ [''aud'' \<mapsto> JArray [JString ''api'']] ++ [''exp'' \<mapsto> JNumber 1700000000]
              ++ [''nbf'' \<mapsto> JNumber 1600000000] ++ [''iat'' \<mapsto> JNumber 1600000000]
              ++ Map.empty)
            ++ [''aud'' \<mapsto> JString ''api''] ++ p,
          jwt_signature = ''signature''\<rparr>],
      None)"
  by (simp add: sign_defs ctx_defs example_jwt_env_def sign_flags_def example_jwk_def
        example_now_def)

text \<open>
  C9.  In a run that returns nil, the claim set of the printed token is the flag-derived
  claims, overwritten by the single-audience override, overwritten by the user's payload
  (the order of line 643).  So every member of the payload appears in the token with the
  payload's value, also where its key is one of the registered claims.
\<close>

theorem payload_merged_last:
  assumes "signAction E ctx = (io, None)"
    and "payload_from_args E ctx = (io1, Inr payload)"
  shows "\<exists>raw c. printed io = [raw] \<and> add_claims E ctx = Inr c
           \<and> jwt_payload raw = Claims_json c ++ aud_override c ++ payload
           \<and> (\<forall>k v. payload k = Some v \<longrightarrow> jwt_payload raw k = Some v)"
proof -
  from assms(1) obtain io1' payload' io2 jwk raw where
    p: "payload_from_args E ctx = (io1', Inr payload')"
    and s: "sign_claims E ctx (ctx_Bool ctx ''subtle'') jwk payload' = Inr raw"
    and "io = io1' @ io2 @ [IoPrintln raw]"
    and pr: "printed io = [raw]"
    by (rule signAction_success)
  from p assms(2) have eq: "payload' = payload" by simp
  from s obtain c where
    c: "add_claims E ctx = Inr c"
    and m: "jwt_payload raw = Claims_json c ++ aud_override c ++ payload'"
    by (rule sign_claims_success)
  from m eq have "\<forall>k v. payload k = Some v \<longrightarrow> jwt_payload raw k = Some v"
    by (simp add: map_add_def)
  with pr c m eq show ?thesis by blast
qed

theorem payload_merged_last_witness:
  "snd (signAction (example_jwt_env colliding_payload example_now)
          (sign_flags 1700000000)) = None
   \<and> snd (payload_from_args (example_jwt_env colliding_payload example_now)
            (sign_flags 1700000000)) = Inr colliding_payload
   \<and> ctx_String (sign_flags 1700000000) ''iss'' = ''issuer''
   \<and> colliding_payload ''iss'' = Some (JString ''someone else'')
   \<and> map (\<lambda>t. jwt_payload t ''iss'')
        (printed (fst (signAction (example_jwt_env colliding_payload
                                     example_now) (sign_flags 1700000000))))
       = [Some (JString ''someone else'')]"
proof -
  let ?E = "example_jwt_env colliding_payload example_now"
  let ?ctx = "sign_flags 1700000000"
  have ok: "snd (signAction ?E ?ctx) = None"
    by (simp add: example_run)
  have pl: "payload_from_args ?E ?ctx = ([IoStdinStat, IoStdinRead], Inr colliding_payload)"
    by (simp add: payload_from_args_def readPayload_def decode_stdin_def example_jwt_env_def
          sign_flags_def)
  have iss: "ctx_String ?ctx ''iss'' = ''issuer''"
    by (simp add: ctx_String_def sign_flags_def)
  have col: "colliding_payload ''iss'' = Some (JString ''someone else'')"
    by (simp add: colliding_payload_def)
  from ok have run: "signAction ?E ?ctx = (fst (signAction ?E ?ctx), None)"
    by (simp add: prod_eq_iff)
  from payload_merged_last[OF run pl] col
  have "map (\<lambda>t. jwt_payload t ''iss'') (printed (fst (signAction ?E ?ctx)))
          = [Some (JString ''someone else'')]"
    by auto
  with ok pl iss col show ?thesis by simp
qed

text \<open>
  C1, as the code has it.  With exactly one audience value and a payload that has no
  \<open>aud\<close> member of its own, the token that a successful run prints has the claim \<open>aud\<close>
  equal to the bare string.  (A payload with an \<open>aud\<close> member overrides it: line 643
  merges the payload last, which is C9.)
\<close>

theorem single_audience_is_string:
  assumes "signAction E ctx = (io, None)"
    and "payload_from_args E ctx = (io1, Inr payload)"
    and "ctx_StringSlice ctx ''aud'' = [a]"
    and "payload ''aud'' = None"
  shows "\<exists>raw. printed io = [raw] \<and> jwt_payload raw ''aud'' = Some (JString a)"
proof -
  from assms(1) obtain io1' payload' io2 jwk raw where
    p: "payload_from_args E ctx = (io1', Inr payload')"
    and s: "sign_claims E ctx (ctx_Bool ctx ''subtle'') jwk payload' = Inr raw"
    and "io = io1' @ io2 @ [IoPrintln raw]"
    and pr: "printed io = [raw]"
    by (rule signAction_success)
  from p assms(2) have eq: "payload' = payload" by simp
  from s obtain c where
    c: "add_claims E ctx = Inr c"
    and m: "jwt_payload raw = Claims_json c ++ aud_override c ++ payload'"
    by (rule sign_claims_success)
  from add_claims_fields(3)[OF c] assms(3) have "aud_override c ''aud'' = Some (JString a)"
    by (simp add: aud_override_def)
  with m eq assms(4) have "jwt_payload raw ''aud'' = Some (JString a)"
    by (simp add: map_add_def)
  with pr show ?thesis by blast
qed

theorem single_audience_is_string_witness:
  "snd (signAction (example_jwt_env Map.empty example_now)
          (sign_flags 1700000000)) = None
   \<and> snd (payload_from_args (example_jwt_env Map.empty example_now)
            (sign_flags 1700000000)) = Inr Map.empty
   \<and> ctx_StringSlice (sign_flags 1700000000) ''aud'' = [''api'']
   \<and> map (\<lambda>t. jwt_payload t ''aud'')
        (printed (fst (signAction (example_jwt_env Map.empty example_now)
                         (sign_flags 1700000000))))
       = [Some (JString ''api'')]"
proof -
  let ?E = "example_jwt_env Map.empty example_now"
  let ?ctx = "sign_flags 1700000000"
  have ok: "snd (signAction ?E ?ctx) = None"
    by (simp add: example_run)
  have pl: "payload_from_args ?E ?ctx = ([IoStdinStat, IoStdinRead], Inr Map.empty)"
    by (simp add: payload_from_args_def readPayload_def decode_stdin_def example_jwt_env_def
          sign_flags_def)
  have aud: "ctx_StringSlice ?ctx ''aud'' = [''api'']"
    by (simp add: ctx_StringSlice_def sign_flags_def)
  from ok have run: "signAction ?E ?ctx = (fst (signAction ?E ?ctx), None)"
    by (simp add: prod_eq_iff)
  from single_audience_is_string[OF run pl aud]
  have "map (\<lambda>t. jwt_payload t ''aud'') (printed (fst (signAction ?E ?ctx)))
          = [Some (JString ''api'')]"
    by auto
  with ok pl aud show ?thesis by simp
qed

text \<open>
  C1 as stated fails: with the one audience value "api" on the command line and
  the payload \<open>{"iss": "someone else", "aud": ["api"], "admin": true}\<close> the run succeeds
  and the token carries \<open>aud\<close> as an array of one element.
\<close>

theorem single_audience_counterexample:
  "ctx_StringSlice (sign_flags 1700000000) ''aud'' = [''api'']
   \<and> snd (signAction (example_jwt_env colliding_payload example_now)
            (sign_flags 1700000000)) = None
   \<and> map (\<lambda>t. jwt_payload t ''aud'')
        (printed (fst (signAction (example_jwt_env colliding_payload
                                     example_now) (sign_flags 1700000000))))
       = [Some (JArray [JString ''api''])]"
proof -
  have "ctx_StringSlice (sign_flags 1700000000) ''aud'' = [''api'']"
    by (simp add: ctx_StringSlice_def sign_flags_def)
  then show ?thesis
    by (simp add: example_run colliding_payload_def)
qed

text \<open>
  C10.  The header of the printed token has a member \<open>kid\<close>, equal to the key id of the
  key that was read, exactly when the flag \<open>no-kid\<close> is not set and that key id is not
  empty; otherwise the header has no member \<open>kid\<close>.
\<close>

theorem kid_header:
  assumes "signAction E ctx = (io, None)"
    and "read_key E (ctx_String ctx ''key'') (ctx_String ctx ''jwks'')
           (parse_options ctx (ctx_String ctx ''alg'') (ctx_String ctx ''kid'')
              (ctx_Bool ctx ''subtle'')) = (io2, Inr jwk)"
  shows "\<exists>raw. printed io = [raw]
           \<and> jwt_protected raw ''kid'' =
               (if \<not> ctx_Bool ctx ''no-kid'' \<and> KeyID jwk \<noteq> []
                then Some (JString (KeyID jwk)) else None)"
proof -
  from assms(1) obtain io1 payload io2' jwk' raw where
    "payload_from_args E ctx = (io1, Inr payload)"
    and k: "read_key E (ctx_String ctx ''key'') (ctx_String ctx ''jwks'')
           (parse_options ctx (ctx_String ctx ''alg'') (ctx_String ctx ''kid'')
              (ctx_Bool ctx ''subtle'')) = (io2', Inr jwk')"
    and s: "sign_claims E ctx (ctx_Bool ctx ''subtle'') jwk' payload = Inr raw"
    and pr: "printed io = [raw]"
    by (rule signAction_success)
  from k assms(2) have eq: "jwk' = jwk" by simp
  from s obtain c where
    "add_claims E ctx = Inr c"
    and h: "jwt_protected raw =
          [''alg'' \<mapsto> JString (Algorithm jwk')] ++ ExtraHeaders (signer_options ctx jwk')"
    by (rule sign_claims_success)
  from h eq have "jwt_protected raw ''kid'' =
               (if \<not> ctx_Bool ctx ''no-kid'' \<and> KeyID jwk \<noteq> []
                then Some (JString (KeyID jwk)) else None)"
    by (simp add: signer_options_def Let_def WithType_def WithHeader_def
          new_SignerOptions_def map_add_def)
  with pr show ?thesis by blast
qed

lemma example_run_no_kid:
  "snd (signAction (example_jwt_env Map.empty example_now) no_kid_flags) = None"
  by (simp add: sign_defs ctx_defs example_jwt_env_def no_kid_flags_def example_jwk_def
        example_now_def)

theorem kid_header_witness:
  "snd (signAction (example_jwt_env Map.empty example_now) (sign_flags 1700000000)) = None
   \<and> snd (read_key (example_jwt_env Map.empty example_now) ''priv.jwk'' [] [WithUse ''sig''])
       = Inr example_jwk
   \<and> KeyID example_jwk = ''key-1''
   \<and> ctx_Bool (sign_flags 1700000000) ''no-kid'' = False
   \<and> map (\<lambda>t. jwt_protected t ''kid'')
        (printed (fst (signAction (example_jwt_env Map.empty example_now)
                         (sign_flags 1700000000))))
       = [Some (JString ''key-1'')]
   \<and> snd (signAction (example_jwt_env Map.empty example_now) no_kid_flags) = None
   \<and> ctx_Bool no_kid_flags ''no-kid'' = True
   \<and> map (\<lambda>t. jwt_protected t ''kid'')
        (printed (fst (signAction (example_jwt_env Map.empty example_now) no_kid_flags)))
       = [None]"
proof -
  let ?E = "example_jwt_env Map.empty example_now"
  let ?ctx = "sign_flags 1700000000"
  have ok: "snd (signAction ?E ?ctx) = None"
    by (simp add: example_run)
  have ok': "snd (signAction ?E no_kid_flags) = None"
    by (rule example_run_no_kid)
  have rk: "read_key ?E ''priv.jwk'' [] [WithUse ''sig'']
              = ([IoParseKey ''priv.jwk'' [WithUse ''sig'']], Inr example_jwk)"
    by (simp add: read_key_def example_jwt_env_def)
  have k: "read_key ?E (ctx_String ?ctx ''key'') (ctx_String ?ctx ''jwks'')
             (parse_options ?ctx (ctx_String ?ctx ''alg'') (ctx_String ?ctx ''kid'')
                (ctx_Bool ?ctx ''subtle''))
           = ([IoParseKey ''priv.jwk'' [WithUse ''sig'']], Inr example_jwk)"
    by (simp add: read_key_def parse_options_def ctx_defs sign_flags_def example_jwt_env_def)
  have k': "read_key ?E (ctx_String no_kid_flags ''key'') (ctx_String no_kid_flags ''jwks'')
             (parse_options no_kid_flags (ctx_String no_kid_flags ''alg'')
                (ctx_String no_kid_flags ''kid'') (ctx_Bool no_kid_flags ''subtle''))
           = ([IoParseKey ''priv.jwk'' [WithUse ''sig'', WithSubtle True]], Inr example_jwk)"
    by (simp add: read_key_def parse_options_def ctx_defs no_kid_flags_def example_jwt_env_def)
  have id: "KeyID example_jwk = ''key-1''"
    by (simp add: example_jwk_def)
  have nk: "ctx_Bool ?ctx ''no-kid'' = False"
    by (simp add: ctx_Bool_def sign_flags_def)
  have nk': "ctx_Bool no_kid_flags ''no-kid'' = True"
    by (simp add: ctx_Bool_def no_kid_flags_def)
  from ok have run: "signAction ?E ?ctx = (fst (signAction ?E ?ctx), None)"
    by (simp add: prod_eq_iff)
  from ok' have run': "signAction ?E no_kid_flags = (fst (signAction ?E no_kid_flags), None)"
    by (simp add: prod_eq_iff)
  from kid_header[OF run k] id nk
  have r: "map (\<lambda>t. jwt_protected t ''kid'') (printed (fst (signAction ?E ?ctx)))
          = [Some (JString ''key-1'')]"
    by auto
  from kid_header[OF run' k'] nk'
  have r': "map (\<lambda>t. jwt_protected t ''kid'') (printed (fst (signAction ?E no_kid_flags)))
          = [None]"
    by auto
  from ok rk id nk r ok' nk' r' show ?thesis by simp
qed

text \<open>Helper facts about the key flags (lines 513--554).\<close>

lemma signAction_bad_key_flags:
  assumes "validate_key_jwks_kid (ctx_String ctx ''key'') (ctx_String ctx ''jwks'')
             (ctx_String ctx ''kid'') = Some err"
  shows "signAction E ctx =
           (fst (payload_from_args E ctx),
            Some (case snd (payload_from_args E ctx) of Inl e \<Rightarrow> e | Inr p \<Rightarrow> err))"
  using assms
  by (cases "payload_from_args E ctx") (simp add: signAction_def Let_def split: sum.split)

lemma signAction_after_key:
  assumes "payload_from_args E ctx = (io1, Inr payload)"
    and "validate_key_jwks_kid (ctx_String ctx ''key'') (ctx_String ctx ''jwks'')
           (ctx_String ctx ''kid'') = None"
    and "read_key E (ctx_String ctx ''key'') (ctx_String ctx ''jwks'')
           (parse_options ctx (ctx_String ctx ''alg'') (ctx_String ctx ''kid'')
              (ctx_Bool ctx ''subtle'')) = (io2, r)"
  shows "signAction E ctx =
           (case r of
              Inl err \<Rightarrow> (io1 @ io2, Some err)
            | Inr jwk \<Rightarrow>
                (case sign_claims E ctx (ctx_Bool ctx ''subtle'') jwk payload of
                   Inl err \<Rightarrow> (io1 @ io2, Some err)
                 | Inr raw \<Rightarrow> (io1 @ io2 @ [IoPrintln raw], None)))"
  using assms by (simp add: signAction_def Let_def split: sum.split)

lemma signAction_key_io:
  assumes "snd (payload_from_args E ctx) = Inr payload"
    and "validate_key_jwks_kid (ctx_String ctx ''key'') (ctx_String ctx ''jwks'')
           (ctx_String ctx ''kid'') = None"
  shows "filter key_io (fst (signAction E ctx)) =
           filter key_io
             (fst (read_key E (ctx_String ctx ''key'') (ctx_String ctx ''jwks'')
                (parse_options ctx (ctx_String ctx ''alg'') (ctx_String ctx ''kid'')
                   (ctx_Bool ctx ''subtle''))))"
proof -
  obtain io1 where p: "payload_from_args E ctx = (io1, Inr payload)"
    using assms(1) by (cases "payload_from_args E ctx") simp
  obtain io2 r where k: "read_key E (ctx_String ctx ''key'') (ctx_String ctx ''jwks'')
           (parse_options ctx (ctx_String ctx ''alg'') (ctx_String ctx ''kid'')
              (ctx_Bool ctx ''subtle'')) = (io2, r)"
    by (cases "read_key E (ctx_String ctx ''key'') (ctx_String ctx ''jwks'')
           (parse_options ctx (ctx_String ctx ''alg'') (ctx_String ctx ''kid'')
              (ctx_Bool ctx ''subtle''))")
  from payload_from_args_events[of E ctx] p have "filter key_io io1 = []" by simp
  then show ?thesis
    by (simp add: signAction_after_key[OF p assms(2) k] k split: sum.split)
qed

text \<open>
  C5.  After the payload has been read, the three bad combinations of the key flags end
  the run with the usage error of the \<open>errs\<close> package: neither \<open>--key\<close> nor \<open>--jwks\<close>,
  both of them, and \<open>--jwks\<close> without \<open>--kid\<close>.  In each of them the run fails whatever the
  payload was, and no key file is opened: the only events are those of reading the
  payload.  With exactly one of the two (and a \<open>--kid\<close> beside \<open>--jwks\<close>) the one key file
  that is opened is the one the flag names.
\<close>

theorem key_xor_jwks:
  "(snd (payload_from_args E ctx) = Inr payload \<longrightarrow>
      (ctx_String ctx ''key'' = [] \<and> ctx_String ctx ''jwks'' = [] \<longrightarrow>
         signAction E ctx =
           (fst (payload_from_args E ctx), Some (RequiredOrFlag ''key'' ''jwks'')))
    \<and> (ctx_String ctx ''key'' \<noteq> [] \<and> ctx_String ctx ''jwks'' \<noteq> [] \<longrightarrow>
         signAction E ctx =
           (fst (payload_from_args E ctx), Some (MutuallyExclusiveFlags ''key'' ''jwks'')))
    \<and> (ctx_String ctx ''key'' = [] \<and> ctx_String ctx ''jwks'' \<noteq> []
          \<and> ctx_String ctx ''kid'' = [] \<longrightarrow>
         signAction E ctx =
           (fst (payload_from_args E ctx), Some (RequiredWithFlag ''kid'' ''jwks'')))
    \<and> (ctx_String ctx ''key'' \<noteq> [] \<and> ctx_String ctx ''jwks'' = [] \<longrightarrow>
         filter key_io (fst (signAction E ctx)) =
           [IoParseKey (ctx_String ctx ''key'')
              (parse_options ctx (ctx_String ctx ''alg'') (ctx_String ctx ''kid'')
                 (ctx_Bool ctx ''subtle''))])
    \<and> (ctx_String ctx ''key'' = [] \<and> ctx_String ctx ''jwks'' \<noteq> []
          \<and> ctx_String ctx ''kid'' \<noteq> [] \<longrightarrow>
         filter key_io (fst (signAction E ctx)) =
           [IoParseKeySet (ctx_String ctx ''jwks'')
              (parse_options ctx (ctx_String ctx ''alg'') (ctx_String ctx ''kid'')
                 (ctx_Bool ctx ''subtle''))]))
   \<and> ((ctx_String ctx ''key'' = [] \<and> ctx_String ctx ''jwks'' = [])
        \<or> (ctx_String ctx ''key'' \<noteq> [] \<and> ctx_String ctx ''jwks'' \<noteq> [])
        \<or> (ctx_String ctx ''jwks'' \<noteq> [] \<and> ctx_String ctx ''kid'' = []) \<longrightarrow>
       snd (signAction E ctx) \<noteq> None
       \<and> filter key_io (fst (signAction E ctx)) = []
       \<and> fst (signAction E ctx) = fst (payload_from_args E ctx))"
proof (intro conjI impI)
  assume p: "snd (payload_from_args E ctx) = Inr payload"
    and "ctx_String ctx ''key'' = [] \<and> ctx_String ctx ''jwks'' = []"
  then have "validate_key_jwks_kid (ctx_String ctx ''key'') (ctx_String ctx ''jwks'')
             (ctx_String ctx ''kid'') = Some (RequiredOrFlag ''key'' ''jwks'')"
    by (simp add: validate_key_jwks_kid_def)
  from signAction_bad_key_flags[OF this, of E] p
  show "signAction E ctx =
           (fst (payload_from_args E ctx), Some (RequiredOrFlag ''key'' ''jwks''))"
    by simp
next
  assume p: "snd (payload_from_args E ctx) = Inr payload"
    and "ctx_String ctx ''key'' \<noteq> [] \<and> ctx_String ctx ''jwks'' \<noteq> []"
  then have "validate_key_jwks_kid (ctx_String ctx ''key'') (ctx_String ctx ''jwks'')
             (ctx_String ctx ''kid'') = Some (MutuallyExclusiveFlags ''key'' ''jwks'')"
    by (simp add: validate_key_jwks_kid_def)
  from signAction_bad_key_flags[OF this, of E] p
  show "signAction E ctx =
           (fst (payload_from_args E ctx), Some (MutuallyExclusiveFlags ''key'' ''jwks''))"
    by simp
next
  assume p: "snd (payload_from_args E ctx) = Inr payload"
    and "ctx_String ctx ''key'' = [] \<and> ctx_String ctx ''jwks'' \<noteq> []
          \<and> ctx_String ctx ''kid'' = []"
  then have "validate_key_jwks_kid (ctx_String ctx ''key'') (ctx_String ctx ''jwks'')
             (ctx_String ctx ''kid'') = Some (RequiredWithFlag ''kid'' ''jwks'')"
    by (simp add: validate_key_jwks_kid_def)
  from signAction_bad_key_flags[OF this, of E] p
  show "signAction E ctx =
           (fst (payload_from_args E ctx), Some (RequiredWithFlag ''kid'' ''jwks''))"
    by simp
next
  assume p: "snd (payload_from_args E ctx) = Inr payload"
    and f: "ctx_String ctx ''key'' \<noteq> [] \<and> ctx_String ctx ''jwks'' = []"
  then have "validate_key_jwks_kid (ctx_String ctx ''key'') (ctx_String ctx ''jwks'')
             (ctx_String ctx ''kid'') = None"
    by (simp add: validate_key_jwks_kid_def)
  from signAction_key_io[OF p this] f
  show "filter key_io (fst (signAction E ctx)) =
           [IoParseKey (ctx_String ctx ''key'')
              (parse_options ctx (ctx_String ctx ''alg'') (ctx_String ctx ''kid'')
                 (ctx_Bool ctx ''subtle''))]"
    by (simp add: read_key_def)
next
  assume p: "snd (payload_from_args E ctx) = Inr payload"
    and f: "ctx_String ctx ''key'' = [] \<and> ctx_String ctx ''jwks'' \<noteq> []
          \<and> ctx_String ctx ''kid'' \<noteq> []"
  then have "validate_key_jwks_kid (ctx_String ctx ''key'') (ctx_String ctx ''jwks'')
             (ctx_String ctx ''kid'') = None"
    by (simp add: validate_key_jwks_kid_def)
  from signAction_key_io[OF p this] f
  show "filter key_io (fst (signAction E ctx)) =
           [IoParseKeySet (ctx_String ctx ''jwks'')
              (parse_options ctx (ctx_String ctx ''alg'') (ctx_String ctx ''kid'')
                 (ctx_Bool ctx ''subtle''))]"
    by (simp add: read_key_def)
next
  assume "(ctx_String ctx ''key'' = [] \<and> ctx_String ctx ''jwks'' = [])
        \<or> (ctx_String ctx ''key'' \<noteq> [] \<and> ctx_String ctx ''jwks'' \<noteq> [])
        \<or> (ctx_String ctx ''jwks'' \<noteq> [] \<and> ctx_String ctx ''kid'' = [])"
  then have "validate_key_jwks_kid (ctx_String ctx ''key'')
      (ctx_String ctx ''jwks'') (ctx_String ctx ''kid'') \<noteq> None"
    by (auto simp: validate_key_jwks_kid_def)
  then obtain err where "validate_key_jwks_kid (ctx_String ctx ''key'')
      (ctx_String ctx ''jwks'') (ctx_String ctx ''kid'') = Some err"
    by blast
  from signAction_bad_key_flags[OF this, of E] payload_from_args_events[of E ctx]
  show "snd (signAction E ctx) \<noteq> None"
    and "filter key_io (fst (signAction E ctx)) = []"
    and "fst (signAction E ctx) = fst (payload_from_args E ctx)"
    by simp_all
qed

lemma key_flags_values:
  "ctx_String (key_flags key jwks kid) ''key'' = key"
  "ctx_String (key_flags key jwks kid) ''jwks'' = jwks"
  "ctx_String (key_flags key jwks kid) ''kid'' = kid"
  "ctx_String (key_flags key jwks kid) ''alg'' = []"
  "ctx_String (key_flags key jwks kid) ''password-file'' = []"
  "ctx_Bool (key_flags key jwks kid) ''subtle'' = True"
  by (simp_all add: key_flags_def ctx_String_def ctx_Bool_def)

lemma key_flags_payload:
  "payload_from_args (example_jwt_env p now) (key_flags key jwks kid)
     = ([IoStdinStat, IoStdinRead], Inr p)"
  by (simp add: payload_from_args_def readPayload_def decode_stdin_def example_jwt_env_def
        key_flags_def)

theorem key_xor_jwks_witness:
  "snd (payload_from_args (example_jwt_env Map.empty example_now) (key_flags [] [] []))
     = Inr Map.empty
   \<and> signAction (example_jwt_env Map.empty example_now) (key_flags [] [] [])
       = ([IoStdinStat, IoStdinRead], Some (RequiredOrFlag ''key'' ''jwks''))
   \<and> signAction (example_jwt_env Map.empty example_now)
         (key_flags ''priv.jwk'' ''set.jwks'' ''key-1'')
       = ([IoStdinStat, IoStdinRead], Some (MutuallyExclusiveFlags ''key'' ''jwks''))
   \<and> signAction (example_jwt_env Map.empty example_now) (key_flags [] ''set.jwks'' [])
       = ([IoStdinStat, IoStdinRead], Some (RequiredWithFlag ''kid'' ''jwks''))
   \<and> filter key_io (fst (signAction (example_jwt_env Map.empty example_now)
                            (key_flags ''priv.jwk'' [] [])))
       = [IoParseKey ''priv.jwk'' [WithUse ''sig'', WithSubtle True]]
   \<and> filter key_io (fst (signAction (example_jwt_env Map.empty example_now)
                            (key_flags [] ''set.jwks'' ''key-1'')))
       = [IoParseKeySet ''set.jwks'' [WithUse ''sig'', WithKid ''key-1'', WithSubtle True]]
   \<and> filter key_io (fst (signAction (example_jwt_env Map.empty example_now)
                            (key_flags ''priv.jwk'' ''set.jwks'' [])))
       = []"
proof -
  let ?E = "example_jwt_env Map.empty example_now"
  have p: "snd (payload_from_args ?E (key_flags key jwks kid)) = Inr Map.empty"
    for key jwks kid
    by (simp add: key_flags_payload)
  from key_xor_jwks[where E = ?E and ctx = "key_flags [] [] []" and payload = Map.empty]
  have a: "signAction ?E (key_flags [] [] [])
       = ([IoStdinStat, IoStdinRead], Some (RequiredOrFlag ''key'' ''jwks''))"
    by (simp add: key_flags_values key_flags_payload)
  from key_xor_jwks[where E = ?E and ctx = "key_flags ''priv.jwk'' ''set.jwks'' ''key-1''"
         and payload = Map.empty]
  have b: "signAction ?E (key_flags ''priv.jwk'' ''set.jwks'' ''key-1'')
       = ([IoStdinStat, IoStdinRead], Some (MutuallyExclusiveFlags ''key'' ''jwks''))"
    by (simp add: key_flags_values key_flags_payload)
  from key_xor_jwks[where E = ?E and ctx = "key_flags [] ''set.jwks'' []"
         and payload = Map.empty]
  have c: "signAction ?E (key_flags [] ''set.jwks'' [])
       = ([IoStdinStat, IoStdinRead], Some (RequiredWithFlag ''kid'' ''jwks''))"
    by (simp add: key_flags_values key_flags_payload)
  from key_xor_jwks[where E = ?E and ctx = "key_flags ''priv.jwk'' [] []"
         and payload = Map.empty]
  have d: "filter key_io (fst (signAction ?E (key_flags ''priv.jwk'' [] [])))
       = [IoParseKey ''priv.jwk'' [WithUse ''sig'', WithSubtle True]]"
    by (simp add: key_flags_values key_flags_payload parse_options_def)
  from key_xor_jwks[where E = ?E and ctx = "key_flags [] ''set.jwks'' ''key-1''"
         and payload = Map.empty]
  have e: "filter key_io (fst (signAction ?E (key_flags [] ''set.jwks'' ''key-1'')))
       = [IoParseKeySet ''set.jwks'' [WithUse ''sig'', WithKid ''key-1'', WithSubtle True]]"
    by (simp add: key_flags_values key_flags_payload parse_options_def)
  from key_xor_jwks[where E = ?E and ctx = "key_flags ''priv.jwk'' ''set.jwks'' []"
         and payload = Map.empty]
  have f: "filter key_io (fst (signAction ?E (key_flags ''priv.jwk'' ''set.jwks'' []))) = []"
    by (simp add: key_flags_values key_flags_payload)
  from p a b c d e f show ?thesis by simp
qed

text \<open>Helper facts about the defaulted claims (lines 592--603) and their JSON form.\<close>

lemma Claims_json_lookups:
  "Claims_json c ''nbf'' = map_option JNumber (c_NotBefore c)"
  "Claims_json c ''iat'' = map_option JNumber (c_IssuedAt c)"
  "Claims_json c ''jti'' = (if c_ID c = [] then None else Some (JString (c_ID c)))"
  by (simp_all add: Claims_json_def omitempty_string_def omitempty_date_def map_add_def
        split: option.split)

lemma aud_override_other: "k \<noteq> ''aud'' \<Longrightarrow> aud_override c k = None"
  by (simp add: aud_override_def)

lemma randutil_Hex_result:
  assumes "randutil_Hex E n = Inr s"
  shows "length s = n \<and> set s \<subseteq> set hex_digits"
proof -
  from assms have s: "s = map (\<lambda>i. hex_digits ! (rand_draw E i mod 16)) [0..<n]"
    by (simp add: randutil_Hex_def split: option.splits)
  have "hex_digits ! (k mod 16) \<in> set hex_digits" for k
    by (rule nth_mem) (simp add: hex_digits_def)
  with s show ?thesis by auto
qed

lemma unset_flag_values:
  assumes "\<not> ctx_IsSet ctx name"
  shows "ctx_Int64 ctx name = 0" and "ctx_String ctx name = []"
  using assms by (simp_all add: ctx_IsSet_def ctx_Int64_def ctx_String_def)

lemma add_claims_eq:
  "add_claims E ctx =
     (if ctx_String ctx ''jti'' = [] \<and> ctx_IsSet ctx ''jti'' then
        (case randutil_Hex E 40 of
           Inl err \<Rightarrow> Inl (Wrap err ''error creating random jti'')
         | Inr s \<Rightarrow>
             Inr \<lparr>c_Issuer = ctx_String ctx ''iss'',
                  c_Subject = ctx_String ctx ''sub'',
                  c_Audience = ctx_StringSlice ctx ''aud'',
                  c_Expiry = UnixNumericDate (ctx_Int64 ctx ''exp''),
                  c_NotBefore =
                    (if UnixNumericDate (ctx_Int64 ctx ''nbf'') = None
                     then NewNumericDate (time_Now_592 E)
                     else UnixNumericDate (ctx_Int64 ctx ''nbf'')),
                  c_IssuedAt =
                    (if UnixNumericDate (ctx_Int64 ctx ''iat'') = None
                     then NewNumericDate (time_Now_592 E)
                     else UnixNumericDate (ctx_Int64 ctx ''iat'')),
                  c_ID = s\<rparr>)
      else
        Inr \<lparr>c_Issuer = ctx_String ctx ''iss'',
             c_Subject = ctx_String ctx ''sub'',
             c_Audience = ctx_StringSlice ctx ''aud'',
             c_Expiry = UnixNumericDate (ctx_Int64 ctx ''exp''),
             c_NotBefore =
               (if UnixNumericDate (ctx_Int64 ctx ''nbf'') = None
                then NewNumericDate (time_Now_592 E)
                else UnixNumericDate (ctx_Int64 ctx ''nbf'')),
             c_IssuedAt =
               (if UnixNumericDate (ctx_Int64 ctx ''iat'') = None
                then NewNumericDate (time_Now_592 E)
                else UnixNumericDate (ctx_Int64 ctx ''iat'')),
             c_ID = ctx_String ctx ''jti''\<rparr>)"
  by (cases "UnixNumericDate (ctx_Int64 ctx ''nbf'')";
      cases "UnixNumericDate (ctx_Int64 ctx ''iat'')")
     (simp_all add: add_claims_def Let_def split: sum.split)

lemma add_claims_defaults:
  assumes "add_claims E ctx = Inr c"
  shows "\<not> ctx_IsSet ctx ''nbf'' \<Longrightarrow> c_NotBefore c = NewNumericDate (time_Now_592 E)"
    and "\<not> ctx_IsSet ctx ''iat'' \<Longrightarrow> c_IssuedAt c = NewNumericDate (time_Now_592 E)"
    and "ctx_IsSet ctx ''jti'' \<Longrightarrow> ctx_String ctx ''jti'' = []
           \<Longrightarrow> randutil_Hex E 40 = Inr (c_ID c)"
    and "\<not> ctx_IsSet ctx ''jti'' \<Longrightarrow> c_ID c = []"
proof -
  show "c_NotBefore c = NewNumericDate (time_Now_592 E)" if "\<not> ctx_IsSet ctx ''nbf''"
    using assms unset_flag_values(1)[OF that]
    by (auto simp: add_claims_eq UnixNumericDate_def split: if_splits sum.splits)
  show "c_IssuedAt c = NewNumericDate (time_Now_592 E)" if "\<not> ctx_IsSet ctx ''iat''"
    using assms unset_flag_values(1)[OF that]
    by (auto simp: add_claims_eq UnixNumericDate_def split: if_splits sum.splits)
  show "randutil_Hex E 40 = Inr (c_ID c)"
    if "ctx_IsSet ctx ''jti''" "ctx_String ctx ''jti'' = []"
    using assms that
    by (auto simp: add_claims_eq split: sum.splits)
  show "c_ID c = []" if "\<not> ctx_IsSet ctx ''jti''"
    using assms that unset_flag_values(2)[OF that]
    by (auto simp: add_claims_eq)
qed

lemma signAction_without_jti:
  assumes "\<not> ctx_IsSet ctx ''jti''"
  shows "signAction (E\<lparr>rand_error := re, rand_draw := rd\<rparr>) ctx = signAction E ctx"
proof -
  let ?E = "E\<lparr>rand_error := re, rand_draw := rd\<rparr>"
  have 0: "readPayload ?E f = readPayload E f" for f
    by (simp add: readPayload_def decode_stdin_def split: sum.split prod.split)
  have 1: "payload_from_args ?E ctx = payload_from_args E ctx"
    by (simp add: payload_from_args_def 0 split: list.split)
  have 2: "read_key ?E k j opts = read_key E k j opts" for k j opts
    by (simp add: read_key_def)
  have 3: "add_claims ?E ctx = add_claims E ctx"
    using assms by (simp add: add_claims_eq)
  have 4: "check_key ?E jwk = check_key E jwk" for jwk
    by (simp add: check_key_def)
  have 5: "validate_exp ?E ctx b = validate_exp E ctx b" for b
    by (simp add: validate_exp_def)
  have 6: "validate_claims ?E b c = validate_claims E b c" for b c
    by (simp add: validate_claims_def)
  have 7: "jose_NewSigner ?E a k so = jose_NewSigner E a k so" for a k so
    by (simp add: jose_NewSigner_def split: option.split)
  have 8: "CompactSerialize ?E b = CompactSerialize E b" for b
    by (simp add: CompactSerialize_def Let_def split: option.split)
  have 9: "sign_claims ?E ctx b jwk p = sign_claims E ctx b jwk p" for b jwk p
    by (simp add: sign_claims_def 3 4 5 6 7 8 split: option.split sum.split)
  show ?thesis
    by (simp add: signAction_def Let_def 1 2 9 split: prod.split option.split sum.split)
qed

text \<open>
  C7.  In a run that returns nil: when \<open>nbf\<close> (or \<open>iat\<close>) is not set, the claim is the
  reading of the clock at line 592, in whole seconds, and the token carries it unless the
  payload has a member of that name.  When \<open>jti\<close> is set with the empty string, the id is
  what \<open>randutil.Hex(40)\<close> returned: 40 characters, each a hexadecimal digit; the token
  carries it unless the payload has a \<open>jti\<close> of its own.  When \<open>jti\<close> is not set, the id
  stays empty, the token has no \<open>jti\<close> unless the payload has one, and the whole run is
  the same whatever the random source would have given.
\<close>

theorem defaulted_claims:
  assumes "signAction E ctx = (io, None)"
    and "payload_from_args E ctx = (io1, Inr payload)"
  shows "\<exists>raw c. printed io = [raw] \<and> add_claims E ctx = Inr c
    \<and> (\<not> ctx_IsSet ctx ''nbf'' \<longrightarrow>
          c_NotBefore c = NewNumericDate (time_Now_592 E)
          \<and> (payload ''nbf'' = None \<and> time_Now_592 E \<noteq> time_zero \<longrightarrow>
               jwt_payload raw ''nbf'' = Some (JNumber (time_Now_592 E div 1000000000))))
    \<and> (\<not> ctx_IsSet ctx ''iat'' \<longrightarrow>
          c_IssuedAt c = NewNumericDate (time_Now_592 E)
          \<and> (payload ''iat'' = None \<and> time_Now_592 E \<noteq> time_zero \<longrightarrow>
               jwt_payload raw ''iat'' = Some (JNumber (time_Now_592 E div 1000000000))))
    \<and> (ctx_IsSet ctx ''jti'' \<and> ctx_String ctx ''jti'' = [] \<longrightarrow>
          randutil_Hex E 40 = Inr (c_ID c)
          \<and> length (c_ID c) = 40 \<and> set (c_ID c) \<subseteq> set hex_digits
          \<and> (payload ''jti'' = None \<longrightarrow> jwt_payload raw ''jti'' = Some (JString (c_ID c))))
    \<and> (\<not> ctx_IsSet ctx ''jti'' \<longrightarrow>
          c_ID c = []
          \<and> (payload ''jti'' = None \<longrightarrow> jwt_payload raw ''jti'' = None)
          \<and> (\<forall>re rd. signAction (E\<lparr>rand_error := re, rand_draw := rd\<rparr>) ctx
                       = signAction E ctx))"
proof -
  from assms(1) obtain io1' payload' io2 jwk raw where
    p: "payload_from_args E ctx = (io1', Inr payload')"
    and s: "sign_claims E ctx (ctx_Bool ctx ''subtle'') jwk payload' = Inr raw"
    and "io = io1' @ io2 @ [IoPrintln raw]"
    and pr: "printed io = [raw]"
    by (rule signAction_success)
  from p assms(2) have eq: "payload' = payload" by simp
  from s obtain c where
    c: "add_claims E ctx = Inr c"
    and m: "jwt_payload raw = Claims_json c ++ aud_override c ++ payload'"
    by (rule sign_claims_success)
  have look: "jwt_payload raw k = Claims_json c k" if "payload k = None" "k \<noteq> ''aud''" for k
    using that m eq by (simp add: map_add_def aud_override_other)
  have nbf: "c_NotBefore c = NewNumericDate (time_Now_592 E)
          \<and> (payload ''nbf'' = None \<and> time_Now_592 E \<noteq> time_zero \<longrightarrow>
               jwt_payload raw ''nbf'' = Some (JNumber (time_Now_592 E div 1000000000)))"
    if "\<not> ctx_IsSet ctx ''nbf''"
    using add_claims_defaults(1)[OF c that] look[of "''nbf''"]
    by (simp add: Claims_json_lookups NewNumericDate_def)
  have iat: "c_IssuedAt c = NewNumericDate (time_Now_592 E)
          \<and> (payload ''iat'' = None \<and> time_Now_592 E \<noteq> time_zero \<longrightarrow>
               jwt_payload raw ''iat'' = Some (JNumber (time_Now_592 E div 1000000000)))"
    if "\<not> ctx_IsSet ctx ''iat''"
    using add_claims_defaults(2)[OF c that] look[of "''iat''"]
    by (simp add: Claims_json_lookups NewNumericDate_def)
  have jti: "randutil_Hex E 40 = Inr (c_ID c)
          \<and> length (c_ID c) = 40 \<and> set (c_ID c) \<subseteq> set hex_digits
          \<and> (payload ''jti'' = None \<longrightarrow> jwt_payload raw ''jti'' = Some (JString (c_ID c)))"
    if "ctx_IsSet ctx ''jti''" "ctx_String ctx ''jti'' = []"
  proof -
    from add_claims_defaults(3)[OF c that] have h: "randutil_Hex E 40 = Inr (c_ID c)" .
    from randutil_Hex_result[OF h] have l: "length (c_ID c) = 40"
      and d: "set (c_ID c) \<subseteq> set hex_digits" by simp_all
    from l have "c_ID c \<noteq> []" by auto
    with look[of "''jti''"] have "payload ''jti'' = None \<longrightarrow>
        jwt_payload raw ''jti'' = Some (JString (c_ID c))"
      by (simp add: Claims_json_lookups)
    with h l d show ?thesis by simp
  qed
  have nojti: "c_ID c = []
          \<and> (payload ''jti'' = None \<longrightarrow> jwt_payload raw ''jti'' = None)
          \<and> (\<forall>re rd. signAction (E\<lparr>rand_error := re, rand_draw := rd\<rparr>) ctx
                       = signAction E ctx)"
    if "\<not> ctx_IsSet ctx ''jti''"
    using add_claims_defaults(4)[OF c that] look[of "''jti''"] signAction_without_jti[OF that]
    by (simp add: Claims_json_lookups)
  have A: "\<not> ctx_IsSet ctx ''nbf'' \<longrightarrow>
          c_NotBefore c = NewNumericDate (time_Now_592 E)
          \<and> (payload ''nbf'' = None \<and> time_Now_592 E \<noteq> time_zero \<longrightarrow>
               jwt_payload raw ''nbf'' = Some (JNumber (time_Now_592 E div 1000000000)))"
    by (rule impI, erule nbf)
  have B: "\<not> ctx_IsSet ctx ''iat'' \<longrightarrow>
          c_IssuedAt c = NewNumericDate (time_Now_592 E)
          \<and> (payload ''iat'' = None \<and> time_Now_592 E \<noteq> time_zero \<longrightarrow>
               jwt_payload raw ''iat'' = Some (JNumber (time_Now_592 E div 1000000000)))"
    by (rule impI, erule iat)
  have C: "ctx_IsSet ctx ''jti'' \<and> ctx_String ctx ''jti'' = [] \<longrightarrow>
          randutil_Hex E 40 = Inr (c_ID c)
          \<and> length (c_ID c) = 40 \<and> set (c_ID c) \<subseteq> set hex_digits
          \<and> (payload ''jti'' = None \<longrightarrow> jwt_payload raw ''jti'' = Some (JString (c_ID c)))"
    by (rule impI, elim conjE, rule jti)
  have D: "\<not> ctx_IsSet ctx ''jti'' \<longrightarrow>
          c_ID c = []
          \<and> (payload ''jti'' = None \<longrightarrow> jwt_payload raw ''jti'' = None)
          \<and> (\<forall>re rd. signAction (E\<lparr>rand_error := re, rand_draw := rd\<rparr>) ctx
                       = signAction E ctx)"
    by (rule impI, erule nojti)
  from pr c A B C D show ?thesis
    by (intro exI[of _ raw] exI[of _ c] conjI) assumption+
qed

lemma example_run_jti:
  "snd (signAction (example_jwt_env Map.empty example_now) jti_flags) = None"
  by (simp add: sign_defs ctx_defs example_jwt_env_def jti_flags_def example_jwk_def
        example_now_def)

lemma example_hex:
  "randutil_Hex (example_jwt_env p now) 40 = Inr ''0123456789abcdef0123456789abcdef01234567''"
  by (simp add: randutil_Hex_def example_jwt_env_def hex_digits_def upt_rec)

theorem defaulted_claims_witness:
  "snd (signAction (example_jwt_env Map.empty example_now) jti_flags) = None
   \<and> snd (payload_from_args (example_jwt_env Map.empty example_now) jti_flags) = Inr Map.empty
   \<and> \<not> ctx_IsSet jti_flags ''nbf'' \<and> \<not> ctx_IsSet jti_flags ''iat''
   \<and> ctx_IsSet jti_flags ''jti'' \<and> ctx_String jti_flags ''jti'' = []
   \<and> time_Now_592 (example_jwt_env Map.empty example_now) = time_Unix 1600000000
   \<and> map (\<lambda>t. (jwt_payload t ''nbf'', jwt_payload t ''iat'', jwt_payload t ''jti''))
        (printed (fst (signAction (example_jwt_env Map.empty example_now) jti_flags)))
       = [(Some (JNumber 1600000000), Some (JNumber 1600000000),
           Some (JString ''0123456789abcdef0123456789abcdef01234567''))]
   \<and> snd (signAction (example_jwt_env Map.empty example_now) (sign_flags 1700000000)) = None
   \<and> \<not> ctx_IsSet (sign_flags 1700000000) ''jti''
   \<and> map (\<lambda>t. jwt_payload t ''jti'')
        (printed (fst (signAction (example_jwt_env Map.empty example_now)
                         (sign_flags 1700000000))))
       = [None]"
proof -
  let ?E = "example_jwt_env Map.empty example_now"
  let ?ctx = "sign_flags 1700000000"
  have ok: "snd (signAction ?E jti_flags) = None"
    by (rule example_run_jti)
  have ok': "snd (signAction ?E ?ctx) = None"
    by (simp add: example_run)
  have pl: "payload_from_args ?E jti_flags = ([IoStdinStat, IoStdinRead], Inr Map.empty)"
    by (simp add: payload_from_args_def readPayload_def decode_stdin_def example_jwt_env_def
          jti_flags_def)
  have pl': "payload_from_args ?E ?ctx = ([IoStdinStat, IoStdinRead], Inr Map.empty)"
    by (simp add: payload_from_args_def readPayload_def decode_stdin_def example_jwt_env_def
          sign_flags_def)
  have f: "\<not> ctx_IsSet jti_flags ''nbf''" "\<not> ctx_IsSet jti_flags ''iat''"
    "ctx_IsSet jti_flags ''jti''" "ctx_String jti_flags ''jti'' = []"
    by (simp_all add: ctx_IsSet_def ctx_String_def jti_flags_def)
  have f': "\<not> ctx_IsSet ?ctx ''jti''"
    by (simp add: ctx_IsSet_def sign_flags_def)
  have now: "time_Now_592 ?E = time_Unix 1600000000"
    by (simp add: example_jwt_env_def example_now_def time_Unix_def)
  have nz: "time_Now_592 ?E \<noteq> time_zero" "time_Now_592 ?E div 1000000000 = 1600000000"
    by (simp_all add: now time_Unix_def time_zero_def)
  from ok have run: "signAction ?E jti_flags = (fst (signAction ?E jti_flags), None)"
    by (simp add: prod_eq_iff)
  from ok' have run': "signAction ?E ?ctx = (fst (signAction ?E ?ctx), None)"
    by (simp add: prod_eq_iff)
  from defaulted_claims[OF run pl] f nz example_hex[of Map.empty example_now]
  have r: "map (\<lambda>t. (jwt_payload t ''nbf'', jwt_payload t ''iat'', jwt_payload t ''jti''))
        (printed (fst (signAction ?E jti_flags)))
       = [(Some (JNumber 1600000000), Some (JNumber 1600000000),
           Some (JString ''0123456789abcdef0123456789abcdef01234567''))]"
    by auto
  from defaulted_claims[OF run' pl'] f'
  have r': "map (\<lambda>t. jwt_payload t ''jti'') (printed (fst (signAction ?E ?ctx))) = [None]"
    by auto
  from ok pl f now r ok' f' r' show ?thesis by simp
qed















end
